theory Spec2Isabelle
  imports Main
begin

section \<open>Tensors, parameters and errors\<close>

text \<open>
  The networks of \<^verbatim>\<open>layout_data/models/unet.py\<close> are wired from library layers. A tensor
  is abstracted to what the wiring can observe: its four sizes (batch, channels, height,
  width) and the expression that produced it (the autograd graph). The floating-point payload
  is not modelled. Sizes are Python integers.
\<close>

datatype padding_mode = zeros | reflect

text \<open>
  A learnable parameter or a buffer of a module: its sizes and the count of in-place writes
  it has received (the tensor's version counter).
\<close>

record parameter =
  dims :: "int list"
  version :: nat

text \<open>
  The library layers used by the file, each with its hyper-parameters and its own state:
  \<^item> \<open>Conv2d in_channels out_channels kernel_size padding padding_mode weight bias\<close>
  \<^item> \<open>BatchNorm2d num_features training weight bias running_mean running_var num_batches_tracked\<close>
  \<^item> \<open>GroupNorm num_groups num_channels weight bias\<close>
  \<^item> \<open>ReLU inplace\<close>, \<open>GELU\<close>, \<open>Dropout training\<close>
  \<^item> \<open>MaxPool2d kernel_size stride\<close>, \<open>AvgPool2d kernel_size stride\<close>
  \<^item> \<open>ConvTranspose2d in_channels out_channels kernel_size stride weight bias\<close>
\<close>

datatype layer =
    Conv2d int int int int padding_mode parameter parameter
  | BatchNorm2d int bool parameter parameter parameter parameter nat
  | GroupNorm int int parameter parameter
  | ReLU bool
  | GELU
  | Dropout bool
  | MaxPool2d int int
  | AvgPool2d int int
  | ConvTranspose2d int int int int parameter parameter

text \<open>
  The expression that produced a tensor: a leaf (a tensor given from outside), a layer
  applied to a tensor, \<^verbatim>\<open>F.interpolate(t, size, mode='bilinear', align_corners=a)\<close>, or
  \<^verbatim>\<open>torch.cat(ts, 1)\<close>.
\<close>

datatype graph =
    Leaf nat
  | Apply layer graph
  | Interpolate "int \<times> int" bool graph
  | Cat "graph list"

record tensor =
  batch :: int
  channels :: int
  height :: int
  width :: int
  grad_fn :: graph

text \<open>Every exception that a constructor or a forward call of these layers raises.\<close>

datatype error =
    NegativeDimension
  | NotDivisibleByGroups int int
  | ChannelMismatch int int
  | PaddingTooLarge
  | KernelTooLarge
  | OutputTooSmall
  | OneValuePerChannel
  | EmptySize
  | SizesMustMatch "int \<times> int \<times> int" "int \<times> int \<times> int"
  | AttributeError

definition bindE :: "error + 'a \<Rightarrow> ('a \<Rightarrow> error + 'b) \<Rightarrow> error + 'b" where
  "bindE m f = (case m of Inl e \<Rightarrow> Inl e | Inr a \<Rightarrow> f a)"

section \<open>Constructors of the library layers\<close>

text \<open>
  A constructor allocates the parameters with \<^verbatim>\<open>torch.empty\<close>, which raises on a negative
  size. \<^verbatim>\<open>GroupNorm\<close> first checks \<^verbatim>\<open>num_channels % num_groups != 0\<close> and raises
  \<^verbatim>\<open>ValueError('num_channels must be divisible by num_groups')\<close>.
\<close>

definition torch_empty :: "int list \<Rightarrow> error + parameter" where
  "torch_empty ds = (if \<exists>d \<in> set ds. d < 0 then Inl NegativeDimension
               else Inr \<lparr>dims = ds, version = 0\<rparr>)"

definition Conv2d_init :: "int \<Rightarrow> int \<Rightarrow> int \<Rightarrow> int \<Rightarrow> padding_mode \<Rightarrow> error + layer" where
  "Conv2d_init ic oc k p pm =
     bindE (torch_empty [oc, ic, k, k]) (\<lambda>w.
     bindE (torch_empty [oc]) (\<lambda>b.
     Inr (Conv2d ic oc k p pm w b)))"

definition ConvTranspose2d_init :: "int \<Rightarrow> int \<Rightarrow> int \<Rightarrow> int \<Rightarrow> error + layer" where
  "ConvTranspose2d_init ic oc k s =
     bindE (torch_empty [ic, oc, k, k]) (\<lambda>w.
     bindE (torch_empty [oc]) (\<lambda>b.
     Inr (ConvTranspose2d ic oc k s w b)))"

definition BatchNorm2d_init :: "int \<Rightarrow> error + layer" where
  "BatchNorm2d_init nf =
     bindE (torch_empty [nf]) (\<lambda>w.
     bindE (torch_empty [nf]) (\<lambda>b.
     bindE (torch_empty [nf]) (\<lambda>rm.
     bindE (torch_empty [nf]) (\<lambda>rv.
     Inr (BatchNorm2d nf True w b rm rv 0)))))"

definition GroupNorm_init :: "int \<Rightarrow> int \<Rightarrow> error + layer" where
  "GroupNorm_init ng nc =
     (if nc mod ng \<noteq> 0 then Inl (NotDivisibleByGroups nc ng)
      else bindE (torch_empty [nc]) (\<lambda>w.
           bindE (torch_empty [nc]) (\<lambda>b.
           Inr (GroupNorm ng nc w b))))"

text \<open>\<^verbatim>\<open>nn.BatchNorm2d(c) if bn else nn.GroupNorm(32, c)\<close>\<close>

definition norm_init :: "bool \<Rightarrow> int \<Rightarrow> error + layer" where
  "norm_init bn c = (if bn then BatchNorm2d_init c else GroupNorm_init 32 c)"

section \<open>Forward calls of the library layers\<close>

text \<open>
  A forward call returns the tensor or the exception, and the module as the call leaves it:
  a \<^verbatim>\<open>BatchNorm2d\<close> in training mode adds one to \<^verbatim>\<open>num_batches_tracked\<close> before it
  normalises, and writes its running statistics when it normalises. No other layer writes
  to its own state.
\<close>

definition inplace_write :: "parameter \<Rightarrow> parameter" where
  "inplace_write p = p\<lparr>version := Suc (version p)\<rparr>"

definition conv_out :: "layer \<Rightarrow> int \<Rightarrow> int \<Rightarrow> int \<Rightarrow> int \<Rightarrow> tensor \<Rightarrow> error + tensor" where
  "conv_out l ic oc k p x =
     (if channels x \<noteq> ic then Inl (ChannelMismatch ic (channels x))
      else if height x + 2 * p < k \<or> width x + 2 * p < k then Inl KernelTooLarge
      else Inr \<lparr>batch = batch x, channels = oc,
                height = height x + 2 * p - k + 1, width = width x + 2 * p - k + 1,
                grad_fn = Apply l (grad_fn x)\<rparr>)"

definition pool_out :: "layer \<Rightarrow> int \<Rightarrow> int \<Rightarrow> tensor \<Rightarrow> error + tensor" where
  "pool_out l k s x =
     (if height x < k \<or> width x < k then Inl OutputTooSmall
      else Inr \<lparr>batch = batch x, channels = channels x,
                height = (height x - k) div s + 1, width = (width x - k) div s + 1,
                grad_fn = Apply l (grad_fn x)\<rparr>)"

definition same_out :: "layer \<Rightarrow> tensor \<Rightarrow> tensor" where
  "same_out l x = x\<lparr>grad_fn := Apply l (grad_fn x)\<rparr>"

fun layer_forward :: "layer \<Rightarrow> tensor \<Rightarrow> (error + tensor) \<times> layer" where
  "layer_forward (Conv2d ic oc k p pm w b) x =
     (if pm = reflect \<and> (height x \<le> p \<or> width x \<le> p) then Inl PaddingTooLarge
      else conv_out (Conv2d ic oc k p pm w b) ic oc k p x,
      Conv2d ic oc k p pm w b)"
| "layer_forward (BatchNorm2d nf training w b rm rv nbt) x =
     (if training then
        (if batch x * height x * width x = 1
         then (Inl OneValuePerChannel, BatchNorm2d nf training w b rm rv (Suc nbt))
         else if channels x \<noteq> nf
         then (Inl (ChannelMismatch nf (channels x)), BatchNorm2d nf training w b rm rv (Suc nbt))
         else (Inr (same_out (BatchNorm2d nf training w b rm rv nbt) x),
               BatchNorm2d nf training w b (inplace_write rm) (inplace_write rv) (Suc nbt)))
      else
        (if channels x \<noteq> nf then Inl (ChannelMismatch nf (channels x))
         else Inr (same_out (BatchNorm2d nf training w b rm rv nbt) x),
         BatchNorm2d nf training w b rm rv nbt))"
| "layer_forward (GroupNorm ng nc w b) x =
     (if (batch x * channels x) div ng * height x * width x = 1 then Inl OneValuePerChannel
      else if channels x mod ng \<noteq> 0 then Inl (NotDivisibleByGroups (channels x) ng)
      else if channels x \<noteq> nc then Inl (ChannelMismatch nc (channels x))
      else Inr (same_out (GroupNorm ng nc w b) x),
      GroupNorm ng nc w b)"
| "layer_forward (ReLU inplace) x = (Inr (same_out (ReLU inplace) x), ReLU inplace)"
| "layer_forward GELU x = (Inr (same_out GELU x), GELU)"
| "layer_forward (Dropout training) x = (Inr (same_out (Dropout training) x), Dropout training)"
| "layer_forward (MaxPool2d k s) x = (pool_out (MaxPool2d k s) k s x, MaxPool2d k s)"
| "layer_forward (AvgPool2d k s) x = (pool_out (AvgPool2d k s) k s x, AvgPool2d k s)"
| "layer_forward (ConvTranspose2d ic oc k s w b) x =
     (if channels x \<noteq> ic then Inl (ChannelMismatch ic (channels x))
      else if (height x - 1) * s + k < 1 \<or> (width x - 1) * s + k < 1 then Inl OutputTooSmall
      else Inr \<lparr>batch = batch x, channels = oc,
                height = (height x - 1) * s + k, width = (width x - 1) * s + k,
                grad_fn = Apply (ConvTranspose2d ic oc k s w b) (grad_fn x)\<rparr>,
      ConvTranspose2d ic oc k s w b)"

text \<open>\<^verbatim>\<open>nn.Sequential\<close>: the layers in order; an exception stops the chain.\<close>

fun Sequential_forward :: "layer list \<Rightarrow> tensor \<Rightarrow> (error + tensor) \<times> layer list" where
  "Sequential_forward [] x = (Inr x, [])"
| "Sequential_forward (l # ls) x =
     (case layer_forward l x of
        (Inl e, l') \<Rightarrow> (Inl e, l' # ls)
      | (Inr y, l') \<Rightarrow> (case Sequential_forward ls y of (r, ls') \<Rightarrow> (r, l' # ls')))"

text \<open>
  \<^verbatim>\<open>F.interpolate(x, size, mode='bilinear', align_corners=a)\<close> and \<^verbatim>\<open>torch.cat([a, b], 1)\<close>.
\<close>

definition interpolate :: "tensor \<Rightarrow> int \<times> int \<Rightarrow> bool \<Rightarrow> error + tensor" where
  "interpolate x sz align_corners =
     (if height x \<le> 0 \<or> width x \<le> 0 \<or> fst sz \<le> 0 \<or> snd sz \<le> 0 then Inl EmptySize
      else Inr \<lparr>batch = batch x, channels = channels x, height = fst sz, width = snd sz,
                grad_fn = Interpolate sz align_corners (grad_fn x)\<rparr>)"

definition cat :: "tensor \<Rightarrow> tensor \<Rightarrow> error + tensor" where
  "cat a b =
     (if (batch a, height a, width a) \<noteq> (batch b, height b, width b)
      then Inl (SizesMustMatch (batch a, height a, width a) (batch b, height b, width b))
      else Inr \<lparr>batch = batch a, channels = channels a + channels b,
                height = height a, width = width a,
                grad_fn = Cat [grad_fn a, grad_fn b]\<rparr>)"

definition size2 :: "tensor \<Rightarrow> int \<times> int" where
  "size2 x = (height x, width x)"

section \<open>Module state and exceptions together\<close>

text \<open>
  A forward method runs in the state of its module and either returns a value or raises;
  the state it leaves behind is kept in both cases. \<open>call\<close> runs the forward method of the
  sub-module held in one attribute.
\<close>

definition returnS :: "'a \<Rightarrow> 's \<Rightarrow> (error + 'a) \<times> 's" where
  "returnS a s = (Inr a, s)"

definition liftE :: "error + 'a \<Rightarrow> 's \<Rightarrow> (error + 'a) \<times> 's" where
  "liftE r s = (r, s)"

definition bindS :: "('s \<Rightarrow> (error + 'a) \<times> 's) \<Rightarrow> ('a \<Rightarrow> 's \<Rightarrow> (error + 'b) \<times> 's)
    \<Rightarrow> 's \<Rightarrow> (error + 'b) \<times> 's" where
  "bindS m f s = (case m s of (Inl e, s') \<Rightarrow> (Inl e, s') | (Inr a, s') \<Rightarrow> f a s')"

definition call :: "('s \<Rightarrow> 'm) \<Rightarrow> (('m \<Rightarrow> 'm) \<Rightarrow> 's \<Rightarrow> 's) \<Rightarrow> ('m \<Rightarrow> 'x \<Rightarrow> (error + 'a) \<times> 'm)
    \<Rightarrow> 'x \<Rightarrow> 's \<Rightarrow> (error + 'a) \<times> 's" where
  "call get upd fwd x s = (case fwd (get s) x of (r, m') \<Rightarrow> (r, upd (\<lambda>_. m') s))"

text \<open>An attribute that exists only under a construction flag: absent, the call raises.\<close>

definition call_opt :: "('s \<Rightarrow> 'm option) \<Rightarrow> (('m option \<Rightarrow> 'm option) \<Rightarrow> 's \<Rightarrow> 's)
    \<Rightarrow> ('m \<Rightarrow> 'x \<Rightarrow> (error + 'a) \<times> 'm) \<Rightarrow> 'x \<Rightarrow> 's \<Rightarrow> (error + 'a) \<times> 's" where
  "call_opt get upd fwd x s =
     (case get s of
        None \<Rightarrow> (Inl AttributeError, s)
      | Some m \<Rightarrow> (case fwd m x of (r, m') \<Rightarrow> (r, upd (\<lambda>_. Some m') s)))"

section \<open>The blocks of UNet\<close>

record EncoderBlock =
  encode :: "layer list"
  pool :: "layer option"

definition EncoderBlock_init :: "int \<Rightarrow> int \<Rightarrow> bool \<Rightarrow> bool \<Rightarrow> bool \<Rightarrow> error + EncoderBlock" where
  "EncoderBlock_init in_channels out_channels dropout polling bn =
     bindE (Conv2d_init in_channels out_channels 3 1 zeros) (\<lambda>c1.
     bindE (norm_init bn out_channels) (\<lambda>n1.
     bindE (Conv2d_init out_channels out_channels 3 1 zeros) (\<lambda>c2.
     bindE (norm_init bn out_channels) (\<lambda>n2.
     Inr \<lparr>encode = [c1, n1, ReLU True, c2, n2, ReLU True] @ (if dropout then [Dropout True] else []),
          pool = (if polling then Some (MaxPool2d 2 2) else None)\<rparr>))))"

definition EncoderBlock_forward :: "EncoderBlock \<Rightarrow> tensor \<Rightarrow> (error + tensor) \<times> EncoderBlock" where
  "EncoderBlock_forward self x =
     bindS (case EncoderBlock.pool self of
              None \<Rightarrow> returnS x
            | Some _ \<Rightarrow> call_opt EncoderBlock.pool EncoderBlock.pool_update layer_forward x) (\<lambda>x.
     call EncoderBlock.encode EncoderBlock.encode_update Sequential_forward x) self"

record DecoderBlock =
  decode :: "layer list"

definition DecoderBlock_init :: "int \<Rightarrow> int \<Rightarrow> int \<Rightarrow> bool \<Rightarrow> error + DecoderBlock" where
  "DecoderBlock_init in_channels middle_channels out_channels bn =
     bindE (Conv2d_init in_channels middle_channels 3 1 zeros) (\<lambda>c1.
     bindE (norm_init bn middle_channels) (\<lambda>n1.
     bindE (Conv2d_init middle_channels middle_channels 3 1 zeros) (\<lambda>c2.
     bindE (norm_init bn middle_channels) (\<lambda>n2.
     bindE (ConvTranspose2d_init middle_channels out_channels 2 2) (\<lambda>up.
     Inr \<lparr>decode = [c1, n1, ReLU True, c2, n2, ReLU True, up]\<rparr>)))))"

definition DecoderBlock_forward :: "DecoderBlock \<Rightarrow> tensor \<Rightarrow> (error + tensor) \<times> DecoderBlock" where
  "DecoderBlock_forward self x =
     call DecoderBlock.decode DecoderBlock.decode_update Sequential_forward x self"

text \<open>
  Modelled from the spec: \<^verbatim>\<open>initialize_weights\<close> of \<^verbatim>\<open>layout_data.utils.initialize\<close> is
  not among the sources. It visits every learnable parameter tensor of the network and assigns
  an initial value: one in-place write to each weight and bias, nothing else. Here is what
  it does to one layer and to the blocks.
\<close>

fun initialize_layer :: "layer \<Rightarrow> layer" where
  "initialize_layer (Conv2d ic oc k p pm w b) = Conv2d ic oc k p pm (inplace_write w) (inplace_write b)"
| "initialize_layer (BatchNorm2d nf training w b rm rv nbt) =
     BatchNorm2d nf training (inplace_write w) (inplace_write b) rm rv nbt"
| "initialize_layer (GroupNorm ng nc w b) = GroupNorm ng nc (inplace_write w) (inplace_write b)"
| "initialize_layer (ConvTranspose2d ic oc k s w b) =
     ConvTranspose2d ic oc k s (inplace_write w) (inplace_write b)"
| "initialize_layer l = l"

definition initialize_encoder :: "EncoderBlock \<Rightarrow> EncoderBlock" where
  "initialize_encoder b =
     \<lparr>encode = map initialize_layer (EncoderBlock.encode b),
      pool = map_option initialize_layer (EncoderBlock.pool b)\<rparr>"

definition initialize_decoder :: "DecoderBlock \<Rightarrow> DecoderBlock" where
  "initialize_decoder b = \<lparr>decode = map initialize_layer (DecoderBlock.decode b)\<rparr>"

section \<open>The blocks of UNetV2\<close>

record EncoderBlockV2 =
  encode :: "layer list"
  pool :: "layer option"

definition EncoderBlockV2_init :: "int \<Rightarrow> int \<Rightarrow> bool \<Rightarrow> bool \<Rightarrow> bool \<Rightarrow> error + EncoderBlockV2" where
  "EncoderBlockV2_init in_channels out_channels dropout polling bn =
     bindE (Conv2d_init in_channels out_channels 3 1 reflect) (\<lambda>c1.
     bindE (norm_init bn out_channels) (\<lambda>n1.
     bindE (Conv2d_init out_channels out_channels 3 1 reflect) (\<lambda>c2.
     bindE (norm_init bn out_channels) (\<lambda>n2.
     Inr \<lparr>encode = [c1, n1, GELU, c2, n2, GELU] @ (if dropout then [Dropout True] else []),
          pool = (if polling then Some (MaxPool2d 2 2) else None)\<rparr>))))"

definition EncoderBlockV2_forward :: "EncoderBlockV2 \<Rightarrow> tensor \<Rightarrow> (error + tensor) \<times> EncoderBlockV2" where
  "EncoderBlockV2_forward self x =
     bindS (case EncoderBlockV2.pool self of
              None \<Rightarrow> returnS x
            | Some _ \<Rightarrow> call_opt EncoderBlockV2.pool EncoderBlockV2.pool_update layer_forward x) (\<lambda>x.
     call EncoderBlockV2.encode EncoderBlockV2.encode_update Sequential_forward x) self"

record DecoderBlockV2 =
  decode :: "layer list"

definition DecoderBlockV2_init :: "int \<Rightarrow> int \<Rightarrow> int \<Rightarrow> bool \<Rightarrow> error + DecoderBlockV2" where
  "DecoderBlockV2_init in_channels middle_channels out_channels bn =
     bindE (Conv2d_init in_channels middle_channels 3 1 reflect) (\<lambda>c1.
     bindE (norm_init bn middle_channels) (\<lambda>n1.
     bindE (Conv2d_init middle_channels out_channels 3 1 reflect) (\<lambda>c2.
     bindE (norm_init bn out_channels) (\<lambda>n2.
     Inr \<lparr>decode = [c1, n1, GELU, c2, n2, GELU]\<rparr>))))"

definition DecoderBlockV2_forward :: "DecoderBlockV2 \<Rightarrow> tensor \<Rightarrow> (error + tensor) \<times> DecoderBlockV2" where
  "DecoderBlockV2_forward self x =
     call DecoderBlockV2.decode DecoderBlockV2.decode_update Sequential_forward x self"

definition initialize_encoderV2 :: "EncoderBlockV2 \<Rightarrow> EncoderBlockV2" where
  "initialize_encoderV2 b =
     \<lparr>encode = map initialize_layer (EncoderBlockV2.encode b),
      pool = map_option initialize_layer (EncoderBlockV2.pool b)\<rparr>"

definition initialize_decoderV2 :: "DecoderBlockV2 \<Rightarrow> DecoderBlockV2" where
  "initialize_decoderV2 b = \<lparr>decode = map initialize_layer (DecoderBlockV2.decode b)\<rparr>"

section \<open>UNet\<close>

record UNet =
  enc1 :: EncoderBlock
  enc2 :: EncoderBlock
  enc3 :: EncoderBlock
  enc4 :: EncoderBlock
  polling :: layer
  center :: DecoderBlock
  dec4 :: DecoderBlock
  dec3 :: DecoderBlock
  dec2 :: DecoderBlock
  dec1 :: "layer list"
  final :: layer

text \<open>
  Modelled from the spec: \<^verbatim>\<open>initialize_weights\<close> (not among the sources) applied to a
  \<^verbatim>\<open>UNet\<close>: one in-place write to each weight and bias, nothing else.
\<close>

definition initialize_weights :: "UNet \<Rightarrow> UNet" where
  "initialize_weights m =
     \<lparr>enc1 = initialize_encoder (UNet.enc1 m), enc2 = initialize_encoder (UNet.enc2 m),
      enc3 = initialize_encoder (UNet.enc3 m), enc4 = initialize_encoder (UNet.enc4 m),
      polling = initialize_layer (UNet.polling m),
      center = initialize_decoder (UNet.center m), dec4 = initialize_decoder (UNet.dec4 m),
      dec3 = initialize_decoder (UNet.dec3 m), dec2 = initialize_decoder (UNet.dec2 m),
      dec1 = map initialize_layer (UNet.dec1 m),
      final = initialize_layer (UNet.final m)\<rparr>"

definition UNet_init :: "int \<Rightarrow> int \<Rightarrow> bool \<Rightarrow> error + UNet" where
  "UNet_init num_classes in_channels bn =
     bindE (EncoderBlock_init in_channels 64 False False bn) (\<lambda>e1.
     bindE (EncoderBlock_init 64 128 False True bn) (\<lambda>e2.
     bindE (EncoderBlock_init 128 256 False True bn) (\<lambda>e3.
     bindE (EncoderBlock_init 256 512 False True bn) (\<lambda>e4.
     bindE (DecoderBlock_init 512 1024 512 bn) (\<lambda>c.
     bindE (DecoderBlock_init 1024 512 256 bn) (\<lambda>d4.
     bindE (DecoderBlock_init 512 256 128 bn) (\<lambda>d3.
     bindE (DecoderBlock_init 256 128 64 bn) (\<lambda>d2.
     bindE (Conv2d_init 128 64 3 1 zeros) (\<lambda>c1.
     bindE (norm_init bn 64) (\<lambda>n1.
     bindE (Conv2d_init 64 64 3 1 zeros) (\<lambda>c2.
     bindE (norm_init bn 64) (\<lambda>n2.
     bindE (Conv2d_init 64 num_classes 1 0 zeros) (\<lambda>f.
     Inr (initialize_weights
       \<lparr>enc1 = e1, enc2 = e2, enc3 = e3, enc4 = e4, polling = MaxPool2d 2 2,
        center = c, dec4 = d4, dec3 = d3, dec2 = d2,
        dec1 = [c1, n1, ReLU True, c2, n2, ReLU True],
        final = f\<rparr>))))))))))))))"

definition UNet_forward :: "UNet \<Rightarrow> tensor \<Rightarrow> (error + tensor) \<times> UNet" where
  "UNet_forward self x =
     bindS (call UNet.enc1 UNet.enc1_update EncoderBlock_forward x) (\<lambda>enc1.
     bindS (call UNet.enc2 UNet.enc2_update EncoderBlock_forward enc1) (\<lambda>enc2.
     bindS (call UNet.enc3 UNet.enc3_update EncoderBlock_forward enc2) (\<lambda>enc3.
     bindS (call UNet.enc4 UNet.enc4_update EncoderBlock_forward enc3) (\<lambda>enc4.
     bindS (call UNet.polling UNet.polling_update layer_forward enc4) (\<lambda>pooled.
     bindS (call UNet.center UNet.center_update DecoderBlock_forward pooled) (\<lambda>center.
     bindS (liftE (interpolate center (size2 enc4) True)) (\<lambda>up.
     bindS (liftE (cat up enc4)) (\<lambda>cat4.
     bindS (call UNet.dec4 UNet.dec4_update DecoderBlock_forward cat4) (\<lambda>dec4.
     bindS (liftE (cat dec4 enc3)) (\<lambda>cat3.
     bindS (call UNet.dec3 UNet.dec3_update DecoderBlock_forward cat3) (\<lambda>dec3.
     bindS (liftE (cat dec3 enc2)) (\<lambda>cat2.
     bindS (call UNet.dec2 UNet.dec2_update DecoderBlock_forward cat2) (\<lambda>dec2.
     bindS (liftE (cat dec2 enc1)) (\<lambda>cat1.
     bindS (call UNet.dec1 UNet.dec1_update Sequential_forward cat1) (\<lambda>dec1.
     call UNet.final UNet.final_update layer_forward dec1))))))))))))))) self"

section \<open>UNetV2\<close>

record UNetV2 =
  multi_scale :: bool
  enc1 :: EncoderBlockV2
  enc2 :: EncoderBlockV2
  enc3 :: EncoderBlockV2
  enc4 :: EncoderBlockV2
  polling :: layer
  center :: DecoderBlockV2
  dec4 :: DecoderBlockV2
  dec3 :: DecoderBlockV2
  dec2 :: DecoderBlockV2
  dec1 :: "layer list"
  conv_8 :: "layer option"
  conv_4 :: "layer option"
  conv_2 :: "layer option"
  final :: layer

text \<open>What \<^verbatim>\<open>UNetV2.forward\<close> returns: one tensor, or a tuple of four.\<close>

datatype outputs = Single tensor | Tuple4 tensor tensor tensor tensor

text \<open>
  Modelled from the spec: \<^verbatim>\<open>initialize_weights\<close> (not among the sources) applied to a
  \<^verbatim>\<open>UNetV2\<close>: one in-place write to each weight and bias, nothing else.
\<close>

definition initialize_weightsV2 :: "UNetV2 \<Rightarrow> UNetV2" where
  "initialize_weightsV2 m =
     \<lparr>multi_scale = UNetV2.multi_scale m,
      enc1 = initialize_encoderV2 (UNetV2.enc1 m), enc2 = initialize_encoderV2 (UNetV2.enc2 m),
      enc3 = initialize_encoderV2 (UNetV2.enc3 m), enc4 = initialize_encoderV2 (UNetV2.enc4 m),
      polling = initialize_layer (UNetV2.polling m),
      center = initialize_decoderV2 (UNetV2.center m), dec4 = initialize_decoderV2 (UNetV2.dec4 m),
      dec3 = initialize_decoderV2 (UNetV2.dec3 m), dec2 = initialize_decoderV2 (UNetV2.dec2 m),
      dec1 = map initialize_layer (UNetV2.dec1 m),
      conv_8 = map_option initialize_layer (UNetV2.conv_8 m),
      conv_4 = map_option initialize_layer (UNetV2.conv_4 m),
      conv_2 = map_option initialize_layer (UNetV2.conv_2 m),
      final = initialize_layer (UNetV2.final m)\<rparr>"

text \<open>The three heads exist only \<^verbatim>\<open>if multi_scale\<close>.\<close>

definition head_init :: "bool \<Rightarrow> int \<Rightarrow> int \<Rightarrow> error + layer option" where
  "head_init multi_scale' ic num_classes =
     (if multi_scale' then bindE (Conv2d_init ic num_classes 1 0 zeros) (\<lambda>c. Inr (Some c))
      else Inr None)"

definition UNetV2_init :: "int \<Rightarrow> int \<Rightarrow> bool \<Rightarrow> int \<Rightarrow> bool \<Rightarrow> error + UNetV2" where
  "UNetV2_init num_classes in_channels bn factors multi_scale' =
     bindE (EncoderBlockV2_init in_channels (32 * factors) False False bn) (\<lambda>e1.
     bindE (EncoderBlockV2_init (32 * factors) (64 * factors) False True bn) (\<lambda>e2.
     bindE (EncoderBlockV2_init (64 * factors) (128 * factors) False True bn) (\<lambda>e3.
     bindE (EncoderBlockV2_init (128 * factors) (256 * factors) False True bn) (\<lambda>e4.
     bindE (DecoderBlockV2_init (256 * factors) (512 * factors) (256 * factors) bn) (\<lambda>c.
     bindE (DecoderBlockV2_init (512 * factors) (256 * factors) (128 * factors) bn) (\<lambda>d4.
     bindE (DecoderBlockV2_init (256 * factors) (128 * factors) (64 * factors) bn) (\<lambda>d3.
     bindE (DecoderBlockV2_init (128 * factors) (64 * factors) (32 * factors) bn) (\<lambda>d2.
     bindE (Conv2d_init (64 * factors) (32 * factors) 3 1 reflect) (\<lambda>c1.
     bindE (norm_init bn (32 * factors)) (\<lambda>n1.
     bindE (Conv2d_init (32 * factors) (32 * factors) 1 0 zeros) (\<lambda>c2.
     bindE (norm_init bn (32 * factors)) (\<lambda>n2.
     bindE (head_init multi_scale' (128 * factors) num_classes) (\<lambda>h8.
     bindE (head_init multi_scale' (64 * factors) num_classes) (\<lambda>h4.
     bindE (head_init multi_scale' (32 * factors) num_classes) (\<lambda>h2.
     bindE (Conv2d_init (32 * factors) num_classes 1 0 zeros) (\<lambda>f.
     Inr (initialize_weightsV2
       \<lparr>multi_scale = multi_scale',
        enc1 = e1, enc2 = e2, enc3 = e3, enc4 = e4, polling = AvgPool2d 2 2,
        center = c, dec4 = d4, dec3 = d3, dec2 = d2,
        dec1 = [c1, n1, GELU, c2, n2, GELU],
        conv_8 = h8, conv_4 = h4, conv_2 = h2,
        final = f\<rparr>)))))))))))))))))"

definition UNetV2_forward :: "UNetV2 \<Rightarrow> tensor \<Rightarrow> (error + outputs) \<times> UNetV2" where
  "UNetV2_forward self x =
     bindS (call UNetV2.enc1 UNetV2.enc1_update EncoderBlockV2_forward x) (\<lambda>enc1.
     bindS (call UNetV2.enc2 UNetV2.enc2_update EncoderBlockV2_forward enc1) (\<lambda>enc2.
     bindS (call UNetV2.enc3 UNetV2.enc3_update EncoderBlockV2_forward enc2) (\<lambda>enc3.
     bindS (call UNetV2.enc4 UNetV2.enc4_update EncoderBlockV2_forward enc3) (\<lambda>enc4.
     bindS (call UNetV2.polling UNetV2.polling_update layer_forward enc4) (\<lambda>pooled.
     bindS (call UNetV2.center UNetV2.center_update DecoderBlockV2_forward pooled) (\<lambda>center.
     bindS (liftE (interpolate center (size2 enc4) False)) (\<lambda>up4.
     bindS (liftE (cat up4 enc4)) (\<lambda>cat4.
     bindS (call UNetV2.dec4 UNetV2.dec4_update DecoderBlockV2_forward cat4) (\<lambda>dec4.
     bindS (liftE (interpolate dec4 (size2 enc3) False)) (\<lambda>up3.
     bindS (liftE (cat up3 enc3)) (\<lambda>cat3.
     bindS (call UNetV2.dec3 UNetV2.dec3_update DecoderBlockV2_forward cat3) (\<lambda>dec3.
     bindS (liftE (interpolate dec3 (size2 enc2) False)) (\<lambda>up2.
     bindS (liftE (cat up2 enc2)) (\<lambda>cat2.
     bindS (call UNetV2.dec2 UNetV2.dec2_update DecoderBlockV2_forward cat2) (\<lambda>dec2.
     bindS (liftE (interpolate dec2 (size2 enc1) False)) (\<lambda>up1.
     bindS (liftE (cat up1 enc1)) (\<lambda>cat1.
     bindS (call UNetV2.dec1 UNetV2.dec1_update Sequential_forward cat1) (\<lambda>dec1.
     bindS (call UNetV2.final UNetV2.final_update layer_forward dec1) (\<lambda>final.
     if UNetV2.multi_scale self then
       bindS (call_opt UNetV2.conv_8 UNetV2.conv_8_update layer_forward dec4) (\<lambda>out8.
       bindS (call_opt UNetV2.conv_4 UNetV2.conv_4_update layer_forward dec3) (\<lambda>out4.
       bindS (call_opt UNetV2.conv_2 UNetV2.conv_2_update layer_forward dec2) (\<lambda>out2.
       returnS (Tuple4 out8 out4 out2 final))))
     else returnS (Single final)))))))))))))))))))) self"

text \<open>
  The script at the end of the file: \<^verbatim>\<open>UNetV2(in_channels=1, num_classes=1)\<close> applied to
  \<^verbatim>\<open>torch.randn(1, 1, 200, 200)\<close>.
\<close>

definition randn :: "int \<Rightarrow> int \<Rightarrow> int \<Rightarrow> int \<Rightarrow> tensor" where
  "randn n c h w = \<lparr>batch = n, channels = c, height = h, width = w, grad_fn = Leaf 0\<rparr>"

definition main :: "error + outputs" where
  "main = bindE (UNetV2_init 1 1 False 2 True) (\<lambda>model. fst (UNetV2_forward model (randn 1 1 200 200)))"

section \<open>What the statements below are about\<close>

text \<open>The four sizes of a tensor, and the tensors of a returned value in tuple order.\<close>

definition shape :: "tensor \<Rightarrow> int \<times> int \<times> int \<times> int" where
  "shape t = (batch t, channels t, height t, width t)"

fun tensors :: "outputs \<Rightarrow> tensor list" where
  "tensors (Single t) = [t]"
| "tensors (Tuple4 a b c d) = [a, b, c, d]"

fun is_tuple :: "outputs \<Rightarrow> bool" where
  "is_tuple (Single t) = False"
| "is_tuple (Tuple4 a b c d) = True"

text \<open>The expression built by a chain of layers on top of \<open>g\<close>.\<close>

definition Sequential_graph :: "layer list \<Rightarrow> graph \<Rightarrow> graph" where
  "Sequential_graph ls g = foldl (\<lambda>g l. Apply l g) g ls"

text \<open>The tensor with given sizes and history.\<close>

fun tensor_of :: "int \<times> int \<times> int \<times> int \<Rightarrow> graph \<Rightarrow> tensor" where
  "tensor_of (n, c, h, w) g = \<lparr>batch = n, channels = c, height = h, width = w, grad_fn = g\<rparr>"

text \<open>
  What the normalisation layer made by \<^verbatim>\<open>BatchNorm2d(c) if bn else GroupNorm(32, c)\<close>
  checks on an input of batch size \<open>n\<close> and spatial size \<open>h\<close> x \<open>w\<close> with \<open>c\<close> channels,
  as constructed (a \<^verbatim>\<open>BatchNorm2d\<close> is in training mode).
\<close>

definition norm_accepts :: "bool \<Rightarrow> int \<Rightarrow> int \<Rightarrow> int \<Rightarrow> int \<Rightarrow> bool" where
  "norm_accepts bn c n h w =
     (if bn then n * h * w \<noteq> 1 else (n * c) div 32 * h * w \<noteq> 1 \<and> c mod 32 = 0)"

text \<open>
  All the checks of the normalisation layers along a forward pass of UNetV2 and of UNet on the
  input \<open>x\<close>: one per channel width and resolution at which a normalisation layer runs.
\<close>

definition UNetV2_norms_accept :: "bool \<Rightarrow> int \<Rightarrow> tensor \<Rightarrow> bool" where
  "UNetV2_norms_accept bn f x =
     (norm_accepts bn (32 * f) (batch x) (height x) (width x) \<and>
      norm_accepts bn (64 * f) (batch x) (height x div 2) (width x div 2) \<and>
      norm_accepts bn (128 * f) (batch x) (height x div 4) (width x div 4) \<and>
      norm_accepts bn (256 * f) (batch x) (height x div 8) (width x div 8) \<and>
      norm_accepts bn (512 * f) (batch x) (height x div 16) (width x div 16) \<and>
      norm_accepts bn (256 * f) (batch x) (height x div 16) (width x div 16) \<and>
      norm_accepts bn (128 * f) (batch x) (height x div 8) (width x div 8) \<and>
      norm_accepts bn (64 * f) (batch x) (height x div 4) (width x div 4) \<and>
      norm_accepts bn (32 * f) (batch x) (height x div 2) (width x div 2))"

definition UNet_norms_accept :: "bool \<Rightarrow> tensor \<Rightarrow> bool" where
  "UNet_norms_accept bn x =
     (norm_accepts bn 64 (batch x) (height x) (width x) \<and>
      norm_accepts bn 128 (batch x) (height x div 2) (width x div 2) \<and>
      norm_accepts bn 256 (batch x) (height x div 4) (width x div 4) \<and>
      norm_accepts bn 512 (batch x) (height x div 8) (width x div 8) \<and>
      norm_accepts bn 1024 (batch x) (height x div 16) (width x div 16))"

text \<open>The expressions built by the blocks on top of \<open>g\<close>.\<close>

definition EncoderBlock_graph :: "EncoderBlock \<Rightarrow> graph \<Rightarrow> graph" where
  "EncoderBlock_graph b g =
     Sequential_graph (EncoderBlock.encode b)
       (case EncoderBlock.pool b of None \<Rightarrow> g | Some p \<Rightarrow> Apply p g)"

definition EncoderBlockV2_graph :: "EncoderBlockV2 \<Rightarrow> graph \<Rightarrow> graph" where
  "EncoderBlockV2_graph b g =
     Sequential_graph (EncoderBlockV2.encode b)
       (case EncoderBlockV2.pool b of None \<Rightarrow> g | Some p \<Rightarrow> Apply p g)"

text \<open>
  The expression that \<^verbatim>\<open>UNet.forward\<close> builds for its result, read off the method:
  the output of \<^verbatim>\<open>center\<close> is resampled to the size of \<^verbatim>\<open>enc4\<close> (one eighth of the
  input, after three poolings), and \<^verbatim>\<open>dec4\<close>, \<^verbatim>\<open>dec3\<close>, \<^verbatim>\<open>dec2\<close> are concatenated
  as they are.
\<close>

definition UNet_graph :: "UNet \<Rightarrow> tensor \<Rightarrow> graph" where
  "UNet_graph self x =
     (let enc1 = EncoderBlock_graph (UNet.enc1 self) (grad_fn x);
          enc2 = EncoderBlock_graph (UNet.enc2 self) enc1;
          enc3 = EncoderBlock_graph (UNet.enc3 self) enc2;
          enc4 = EncoderBlock_graph (UNet.enc4 self) enc3;
          center = Sequential_graph (DecoderBlock.decode (UNet.center self)) (Apply (UNet.polling self) enc4);
          dec4 = Sequential_graph (DecoderBlock.decode (UNet.dec4 self))
                   (Cat [Interpolate (height x div 8, width x div 8) True center, enc4]);
          dec3 = Sequential_graph (DecoderBlock.decode (UNet.dec3 self)) (Cat [dec4, enc3]);
          dec2 = Sequential_graph (DecoderBlock.decode (UNet.dec2 self)) (Cat [dec3, enc2]);
          dec1 = Sequential_graph (UNet.dec1 self) (Cat [dec2, enc1])
      in Apply (UNet.final self) dec1)"

text \<open>
  The expressions that \<^verbatim>\<open>UNetV2.forward\<close> builds for \<^verbatim>\<open>dec4\<close>, \<^verbatim>\<open>dec3\<close>, \<^verbatim>\<open>dec2\<close>
  and \<^verbatim>\<open>dec1\<close>, and the value the specification gives for the forward pass: the tuple
  \<^verbatim>\<open>(conv_8(dec4), conv_4(dec3), conv_2(dec2), final)\<close> at one eighth, one quarter, one half and
  the full input size when \<^verbatim>\<open>multi_scale\<close> is set, the single tensor \<^verbatim>\<open>final\<close> otherwise, all
  with \<^verbatim>\<open>num_classes\<close> channels. It is compared with \<open>UNetV2_forward\<close>.
\<close>

definition UNetV2_decoder_graphs :: "UNetV2 \<Rightarrow> tensor \<Rightarrow> graph \<times> graph \<times> graph \<times> graph" where
  "UNetV2_decoder_graphs self x =
     (let enc1 = EncoderBlockV2_graph (UNetV2.enc1 self) (grad_fn x);
          enc2 = EncoderBlockV2_graph (UNetV2.enc2 self) enc1;
          enc3 = EncoderBlockV2_graph (UNetV2.enc3 self) enc2;
          enc4 = EncoderBlockV2_graph (UNetV2.enc4 self) enc3;
          center = Sequential_graph (DecoderBlockV2.decode (UNetV2.center self))
                     (Apply (UNetV2.polling self) enc4);
          dec4 = Sequential_graph (DecoderBlockV2.decode (UNetV2.dec4 self))
                   (Cat [Interpolate (height x div 8, width x div 8) False center, enc4]);
          dec3 = Sequential_graph (DecoderBlockV2.decode (UNetV2.dec3 self))
                   (Cat [Interpolate (height x div 4, width x div 4) False dec4, enc3]);
          dec2 = Sequential_graph (DecoderBlockV2.decode (UNetV2.dec2 self))
                   (Cat [Interpolate (height x div 2, width x div 2) False dec3, enc2]);
          dec1 = Sequential_graph (UNetV2.dec1 self)
                   (Cat [Interpolate (height x, width x) False dec2, enc1])
      in (dec4, dec3, dec2, dec1))"

definition head_graph :: "layer option \<Rightarrow> graph \<Rightarrow> graph" where
  "head_graph h g = (case h of None \<Rightarrow> g | Some c \<Rightarrow> Apply c g)"

definition UNetV2_expected :: "int \<Rightarrow> UNetV2 \<Rightarrow> tensor \<Rightarrow> outputs" where
  "UNetV2_expected num_classes self x =
     (case UNetV2_decoder_graphs self x of (g4, g3, g2, g1) \<Rightarrow>
        if UNetV2.multi_scale self then
          Tuple4
            (tensor_of (batch x, num_classes, height x div 8, width x div 8)
               (head_graph (UNetV2.conv_8 self) g4))
            (tensor_of (batch x, num_classes, height x div 4, width x div 4)
               (head_graph (UNetV2.conv_4 self) g3))
            (tensor_of (batch x, num_classes, height x div 2, width x div 2)
               (head_graph (UNetV2.conv_2 self) g2))
            (tensor_of (batch x, num_classes, height x, width x) (Apply (UNetV2.final self) g1))
        else Single (tensor_of (batch x, num_classes, height x, width x) (Apply (UNetV2.final self) g1)))"

text \<open>
  \<^verbatim>\<open>Module.parameters()\<close>: the learnable parameters (weights and biases) of every layer, in
  the order the attributes are assigned. The running statistics of a \<^verbatim>\<open>BatchNorm2d\<close> are
  buffers, not parameters.
\<close>

fun layer_parameters :: "layer \<Rightarrow> parameter list" where
  "layer_parameters (Conv2d ic oc k p pm w b) = [w, b]"
| "layer_parameters (BatchNorm2d nf training w b rm rv nbt) = [w, b]"
| "layer_parameters (GroupNorm ng nc w b) = [w, b]"
| "layer_parameters (ConvTranspose2d ic oc k s w b) = [w, b]"
| "layer_parameters l = []"

definition EncoderBlock_layers :: "EncoderBlock \<Rightarrow> layer list" where
  "EncoderBlock_layers b = EncoderBlock.encode b @ (case EncoderBlock.pool b of None \<Rightarrow> [] | Some p \<Rightarrow> [p])"

definition EncoderBlockV2_layers :: "EncoderBlockV2 \<Rightarrow> layer list" where
  "EncoderBlockV2_layers b =
     EncoderBlockV2.encode b @ (case EncoderBlockV2.pool b of None \<Rightarrow> [] | Some p \<Rightarrow> [p])"

definition UNet_layers :: "UNet \<Rightarrow> layer list" where
  "UNet_layers m =
     EncoderBlock_layers (UNet.enc1 m) @ EncoderBlock_layers (UNet.enc2 m) @
     EncoderBlock_layers (UNet.enc3 m) @ EncoderBlock_layers (UNet.enc4 m) @
     [UNet.polling m] @
     DecoderBlock.decode (UNet.center m) @ DecoderBlock.decode (UNet.dec4 m) @
     DecoderBlock.decode (UNet.dec3 m) @ DecoderBlock.decode (UNet.dec2 m) @
     UNet.dec1 m @ [UNet.final m]"

definition UNetV2_layers :: "UNetV2 \<Rightarrow> layer list" where
  "UNetV2_layers m =
     EncoderBlockV2_layers (UNetV2.enc1 m) @ EncoderBlockV2_layers (UNetV2.enc2 m) @
     EncoderBlockV2_layers (UNetV2.enc3 m) @ EncoderBlockV2_layers (UNetV2.enc4 m) @
     [UNetV2.polling m] @
     DecoderBlockV2.decode (UNetV2.center m) @ DecoderBlockV2.decode (UNetV2.dec4 m) @
     DecoderBlockV2.decode (UNetV2.dec3 m) @ DecoderBlockV2.decode (UNetV2.dec2 m) @
     UNetV2.dec1 m @
     (case UNetV2.conv_8 m of None \<Rightarrow> [] | Some l \<Rightarrow> [l]) @
     (case UNetV2.conv_4 m of None \<Rightarrow> [] | Some l \<Rightarrow> [l]) @
     (case UNetV2.conv_2 m of None \<Rightarrow> [] | Some l \<Rightarrow> [l]) @
     [UNetV2.final m]"

definition UNet_parameters :: "UNet \<Rightarrow> parameter list" where
  "UNet_parameters m = concat (map layer_parameters (UNet_layers m))"

definition UNetV2_parameters :: "UNetV2 \<Rightarrow> parameter list" where
  "UNetV2_parameters m = concat (map layer_parameters (UNetV2_layers m))"

text \<open>The channel counts given to the \<^verbatim>\<open>GroupNorm\<close> layers of a network.\<close>

fun group_norm_channels :: "layer \<Rightarrow> (int \<times> int) list" where
  "group_norm_channels (GroupNorm ng nc w b) = [(ng, nc)]"
| "group_norm_channels l = []"

fun is_pool :: "layer \<Rightarrow> bool" where
  "is_pool (MaxPool2d k s) = True"
| "is_pool (AvgPool2d k s) = True"
| "is_pool l = False"

text \<open>
  The pooling modules of a \<^verbatim>\<open>UNetV2\<close>: the \<^verbatim>\<open>pool\<close> attribute of the four encoder blocks,
  and the network's own \<^verbatim>\<open>polling\<close>, applied between \<^verbatim>\<open>enc4\<close> and \<^verbatim>\<open>center\<close>.
\<close>

definition UNetV2_encoder_pools :: "UNetV2 \<Rightarrow> layer option list" where
  "UNetV2_encoder_pools m =
     [EncoderBlockV2.pool (UNetV2.enc1 m), EncoderBlockV2.pool (UNetV2.enc2 m),
      EncoderBlockV2.pool (UNetV2.enc3 m), EncoderBlockV2.pool (UNetV2.enc4 m)]"

definition UNet_group_norms :: "UNet \<Rightarrow> (int \<times> int) list" where
  "UNet_group_norms m = concat (map group_norm_channels (UNet_layers m))"

definition UNetV2_group_norms :: "UNetV2 \<Rightarrow> (int \<times> int) list" where
  "UNetV2_group_norms m = concat (map group_norm_channels (UNetV2_layers m))"

text \<open>
  The ladder as the specification words it for UNet: each of the four steps resamples the
  previous output to the size of the retained encoder output (bilinear, aligned corners),
  concatenates with it, and runs the decoder block. It is compared with \<open>UNet_forward\<close>.
\<close>

definition UNet_forward_resampling_ladder :: "UNet \<Rightarrow> tensor \<Rightarrow> (error + tensor) \<times> UNet" where
  "UNet_forward_resampling_ladder self x =
     bindS (call UNet.enc1 UNet.enc1_update EncoderBlock_forward x) (\<lambda>enc1.
     bindS (call UNet.enc2 UNet.enc2_update EncoderBlock_forward enc1) (\<lambda>enc2.
     bindS (call UNet.enc3 UNet.enc3_update EncoderBlock_forward enc2) (\<lambda>enc3.
     bindS (call UNet.enc4 UNet.enc4_update EncoderBlock_forward enc3) (\<lambda>enc4.
     bindS (call UNet.polling UNet.polling_update layer_forward enc4) (\<lambda>pooled.
     bindS (call UNet.center UNet.center_update DecoderBlock_forward pooled) (\<lambda>center.
     bindS (liftE (interpolate center (size2 enc4) True)) (\<lambda>up4.
     bindS (liftE (cat up4 enc4)) (\<lambda>cat4.
     bindS (call UNet.dec4 UNet.dec4_update DecoderBlock_forward cat4) (\<lambda>dec4.
     bindS (liftE (interpolate dec4 (size2 enc3) True)) (\<lambda>up3.
     bindS (liftE (cat up3 enc3)) (\<lambda>cat3.
     bindS (call UNet.dec3 UNet.dec3_update DecoderBlock_forward cat3) (\<lambda>dec3.
     bindS (liftE (interpolate dec3 (size2 enc2) True)) (\<lambda>up2.
     bindS (liftE (cat up2 enc2)) (\<lambda>cat2.
     bindS (call UNet.dec2 UNet.dec2_update DecoderBlock_forward cat2) (\<lambda>dec2.
     bindS (liftE (interpolate dec2 (size2 enc1) True)) (\<lambda>up1.
     bindS (liftE (cat up1 enc1)) (\<lambda>cat1.
     bindS (call UNet.dec1 UNet.dec1_update Sequential_forward cat1) (\<lambda>dec1.
     call UNet.final UNet.final_update layer_forward dec1)))))))))))))))))) self"

section \<open>Running a forward pass: the returned value\<close>

text \<open>
  The value returned by a forward call does not depend on the state the call leaves behind,
  so it is characterised layer by layer and block by block: a call succeeds exactly when the
  checks of its layers pass, and then returns a tensor of known sizes and history.
\<close>

lemma bindE_Inl [simp]: "bindE (Inl e) f = Inl e"
  and bindE_Inr [simp]: "bindE (Inr a) f = f a"
  by (simp_all add: bindE_def)

lemma bindE_eq_Inr: "bindE m f = Inr b \<longleftrightarrow> (\<exists>a. m = Inr a \<and> f a = Inr b)"
  by (cases m) simp_all

lemma fst_bindS: "fst (bindS m f s) = bindE (fst (m s)) (\<lambda>a. fst (f a (snd (m s))))"
  by (simp add: bindS_def bindE_def split: prod.splits sum.splits)

lemma snd_bindS:
  "snd (bindS m f s) = (case fst (m s) of Inl e \<Rightarrow> snd (m s) | Inr a \<Rightarrow> snd (f a (snd (m s))))"
  by (simp add: bindS_def split: prod.splits sum.splits)

lemma fst_call: "fst (call get upd fwd x s) = fst (fwd (get s) x)"
  and snd_call: "snd (call get upd fwd x s) = upd (\<lambda>_. snd (fwd (get s) x)) s"
  by (simp_all add: call_def split: prod.splits)

lemma fst_call_opt:
  "fst (call_opt get upd fwd x s) = (case get s of None \<Rightarrow> Inl AttributeError | Some m \<Rightarrow> fst (fwd m x))"
  and snd_call_opt:
  "snd (call_opt get upd fwd x s) = (case get s of None \<Rightarrow> s | Some m \<Rightarrow> upd (\<lambda>_. Some (snd (fwd m x))) s)"
  by (simp_all add: call_opt_def split: prod.splits option.splits)

lemma fst_liftE: "fst (liftE r s) = r" and snd_liftE: "snd (liftE r s) = s"
  and fst_returnS: "fst (returnS a s) = Inr a" and snd_returnS: "snd (returnS a s) = s"
  by (simp_all add: liftE_def returnS_def)

lemmas run_simps = fst_bindS snd_bindS fst_call snd_call fst_call_opt snd_call_opt
  fst_liftE snd_liftE fst_returnS snd_returnS

lemma fst_Sequential_Nil: "fst (Sequential_forward [] x) = Inr x"
  by simp

lemma fst_Sequential_Cons:
  "fst (Sequential_forward (l # ls) x) = bindE (fst (layer_forward l x)) (\<lambda>y. fst (Sequential_forward ls y))"
  by (simp split: prod.splits sum.splits)

lemma map_sum_eq_Inr: "map_sum f g r = Inr s \<longleftrightarrow> (\<exists>y. r = Inr y \<and> g y = s)"
  by (cases r) auto

lemma Sequential_Nil_iff: "fst (Sequential_forward [] x) = Inr y \<longleftrightarrow> y = x"
  by auto

lemma Sequential_Cons_iff:
  "fst (Sequential_forward (l # ls) x) = Inr y \<longleftrightarrow>
     (\<exists>z. fst (layer_forward l x) = Inr z \<and> fst (Sequential_forward ls z) = Inr y)"
  by (simp only: fst_Sequential_Cons bindE_eq_Inr)

lemma Conv2d_iff:
  "fst (layer_forward (Conv2d ic oc k p pm w b) x) = Inr y \<longleftrightarrow>
     \<not> (pm = reflect \<and> (height x \<le> p \<or> width x \<le> p)) \<and> channels x = ic \<and>
     k \<le> height x + 2 * p \<and> k \<le> width x + 2 * p \<and>
     y = \<lparr>batch = batch x, channels = oc, height = height x + 2 * p - k + 1,
          width = width x + 2 * p - k + 1, grad_fn = Apply (Conv2d ic oc k p pm w b) (grad_fn x)\<rparr>"
  by (auto simp: conv_out_def)

lemma GroupNorm_iff:
  "fst (layer_forward (GroupNorm ng nc w b) x) = Inr y \<longleftrightarrow>
     (batch x * channels x) div ng * height x * width x \<noteq> 1 \<and> channels x mod ng = 0 \<and>
     channels x = nc \<and> y = same_out (GroupNorm ng nc w b) x"
  by auto

lemma BatchNorm2d_iff:
  "fst (layer_forward (BatchNorm2d nf tr w b rm rv nbt) x) = Inr y \<longleftrightarrow>
     (tr \<longrightarrow> batch x * height x * width x \<noteq> 1) \<and> channels x = nf \<and>
     y = same_out (BatchNorm2d nf tr w b rm rv nbt) x"
  by auto

lemma act_iff:
  "fst (layer_forward (ReLU i) x) = Inr y \<longleftrightarrow> y = same_out (ReLU i) x"
  "fst (layer_forward GELU x) = Inr y \<longleftrightarrow> y = same_out GELU x"
  "fst (layer_forward (Dropout t) x) = Inr y \<longleftrightarrow> y = same_out (Dropout t) x"
  by auto

lemma pool_iff:
  "fst (layer_forward (MaxPool2d k s) x) = Inr y \<longleftrightarrow>
     k \<le> height x \<and> k \<le> width x \<and>
     y = \<lparr>batch = batch x, channels = channels x, height = (height x - k) div s + 1,
          width = (width x - k) div s + 1, grad_fn = Apply (MaxPool2d k s) (grad_fn x)\<rparr>"
  "fst (layer_forward (AvgPool2d k s) x) = Inr y \<longleftrightarrow>
     k \<le> height x \<and> k \<le> width x \<and>
     y = \<lparr>batch = batch x, channels = channels x, height = (height x - k) div s + 1,
          width = (width x - k) div s + 1, grad_fn = Apply (AvgPool2d k s) (grad_fn x)\<rparr>"
  by (auto simp: pool_out_def)

lemma ConvTranspose2d_iff:
  "fst (layer_forward (ConvTranspose2d ic oc k s w b) x) = Inr y \<longleftrightarrow>
     channels x = ic \<and> 1 \<le> (height x - 1) * s + k \<and> 1 \<le> (width x - 1) * s + k \<and>
     y = \<lparr>batch = batch x, channels = oc, height = (height x - 1) * s + k,
          width = (width x - 1) * s + k, grad_fn = Apply (ConvTranspose2d ic oc k s w b) (grad_fn x)\<rparr>"
  by auto

lemma interpolate_iff:
  "interpolate x sz a = Inr y \<longleftrightarrow>
     0 < height x \<and> 0 < width x \<and> 0 < fst sz \<and> 0 < snd sz \<and>
     y = \<lparr>batch = batch x, channels = channels x, height = fst sz, width = snd sz,
          grad_fn = Interpolate sz a (grad_fn x)\<rparr>"
  by (auto simp: interpolate_def)

lemma cat_iff:
  "cat a b = Inr y \<longleftrightarrow>
     batch a = batch b \<and> height a = height b \<and> width a = width b \<and>
     y = \<lparr>batch = batch a, channels = channels a + channels b, height = height a,
          width = width a, grad_fn = Cat [grad_fn a, grad_fn b]\<rparr>"
  by (auto simp: cat_def)

lemmas layer_iffs = Sequential_Nil_iff Sequential_Cons_iff Conv2d_iff GroupNorm_iff BatchNorm2d_iff
  act_iff pool_iff ConvTranspose2d_iff interpolate_iff cat_iff

lemma EncoderBlockV2_forward_fst:
  "fst (EncoderBlockV2_forward self x) =
     bindE (case EncoderBlockV2.pool self of None \<Rightarrow> Inr x | Some p \<Rightarrow> fst (layer_forward p x)) (\<lambda>x.
     fst (Sequential_forward (EncoderBlockV2.encode self) x))"
  unfolding EncoderBlockV2_forward_def
  by (cases "EncoderBlockV2.pool self") (simp_all add: run_simps)

lemma DecoderBlockV2_forward_fst:
  "fst (DecoderBlockV2_forward self x) = fst (Sequential_forward (DecoderBlockV2.decode self) x)"
  unfolding DecoderBlockV2_forward_def by (simp add: run_simps)

lemmas init_defs = UNetV2_init_def EncoderBlockV2_init_def DecoderBlockV2_init_def head_init_def
  Conv2d_init_def norm_init_def GroupNorm_init_def BatchNorm2d_init_def torch_empty_def
  initialize_weightsV2_def initialize_encoderV2_def initialize_decoderV2_def inplace_write_def


lemma tensor_of_sel [simp]:
  "batch (tensor_of (n, c, h, w) g) = n" "channels (tensor_of (n, c, h, w) g) = c"
  "height (tensor_of (n, c, h, w) g) = h" "width (tensor_of (n, c, h, w) g) = w"
  "grad_fn (tensor_of (n, c, h, w) g) = g" "shape (tensor_of (n, c, h, w) g) = (n, c, h, w)"
  by (simp_all add: shape_def)

lemma tensor_of_eq: "\<lparr>batch = n, channels = c, height = h, width = w, grad_fn = g\<rparr> = tensor_of (n, c, h, w) g"
  by simp

lemma tensor_of_shape: "tensor_of (shape x) (grad_fn x) = x"
  by (simp add: shape_def)

lemma norm_init_iff:
  assumes "norm_init bn c = Inr n0"
  shows "fst (layer_forward (initialize_layer n0) x) = Inr y \<longleftrightarrow>
     channels x = c \<and> norm_accepts bn c (batch x) (height x) (width x) \<and>
     y = tensor_of (batch x, c, height x, width x) (Apply (initialize_layer n0) (grad_fn x))"
  using assms
  by (cases bn)
    (auto simp: norm_init_def BatchNorm2d_init_def GroupNorm_init_def torch_empty_def bindE_eq_Inr
      norm_accepts_def same_out_def split: if_splits)

lemma cna_iff:
  assumes n: "norm_init bn oc = Inr n0" and a: "a = GELU \<or> a = ReLU True" and k: "k = 2 * p + 1"
  shows "fst (Sequential_forward (Conv2d ic oc k p pm w b # initialize_layer n0 # a # rest) x) = Inr y \<longleftrightarrow>
     (pm = reflect \<longrightarrow> p < height x \<and> p < width x) \<and> channels x = ic \<and>
     1 \<le> height x \<and> 1 \<le> width x \<and> norm_accepts bn oc (batch x) (height x) (width x) \<and>
     fst (Sequential_forward rest (tensor_of (batch x, oc, height x, width x)
        (Apply a (Apply (initialize_layer n0) (Apply (Conv2d ic oc k p pm w b) (grad_fn x)))))) = Inr y"
  using a k
  by (auto simp: Sequential_Cons_iff Conv2d_iff norm_init_iff [OF n] act_iff same_out_def
      simp del: Sequential_forward.simps layer_forward.simps)


lemma Conv2d_initE:
  assumes "Conv2d_init ic oc k p pm = Inr c"
  obtains w b where "initialize_layer c = Conv2d ic oc k p pm w b"
  using assms by (auto simp: Conv2d_init_def torch_empty_def bindE_eq_Inr split: if_splits)

lemma pool_half: "(h - 2) div 2 + 1 = h div (2::int)"
  by simp

lemma EncoderBlockV2_initE:
  assumes "EncoderBlockV2_init ic oc False p bn = Inr blk"
  obtains w1 b1 n1 w2 b2 n2 where
    "EncoderBlockV2.encode (initialize_encoderV2 blk) =
       [Conv2d ic oc 3 1 reflect w1 b1, initialize_layer n1, GELU,
        Conv2d oc oc 3 1 reflect w2 b2, initialize_layer n2, GELU]"
    "EncoderBlockV2.pool (initialize_encoderV2 blk) = (if p then Some (MaxPool2d 2 2) else None)"
    "norm_init bn oc = Inr n1" "norm_init bn oc = Inr n2"
proof -
  from assms obtain c1 n1 c2 n2 where
    c1: "Conv2d_init ic oc 3 1 reflect = Inr c1" and n1: "norm_init bn oc = Inr n1" and
    c2: "Conv2d_init oc oc 3 1 reflect = Inr c2" and n2: "norm_init bn oc = Inr n2" and
    blk: "blk = \<lparr>EncoderBlockV2.encode = [c1, n1, GELU, c2, n2, GELU],
                  pool = (if p then Some (MaxPool2d 2 2) else None)\<rparr>"
    by (auto simp: EncoderBlockV2_init_def bindE_eq_Inr)
  from c1 obtain w1 b1 where w1: "initialize_layer c1 = Conv2d ic oc 3 1 reflect w1 b1"
    by (rule Conv2d_initE)
  from c2 obtain w2 b2 where w2: "initialize_layer c2 = Conv2d oc oc 3 1 reflect w2 b2"
    by (rule Conv2d_initE)
  show thesis
    by (rule that [OF _ _ n1 n2]) (simp_all add: blk initialize_encoderV2_def w1 w2)
qed

lemma EncoderBlockV2_iff:
  assumes init: "EncoderBlockV2_init ic oc False p bn = Inr blk0"
    and blk: "blk = initialize_encoderV2 blk0"
    and hp: "hp = (if p then height x div 2 else height x)"
    and wp: "wp = (if p then width x div 2 else width x)"
  shows "fst (EncoderBlockV2_forward blk x) = Inr y \<longleftrightarrow>
     channels x = ic \<and> 2 \<le> hp \<and> 2 \<le> wp \<and> norm_accepts bn oc (batch x) hp wp \<and>
     y = tensor_of (batch x, oc, hp, wp) (EncoderBlockV2_graph blk (grad_fn x))"
proof -
  from init obtain w1 b1 n1 w2 b2 n2 where
    enc: "EncoderBlockV2.encode blk =
       [Conv2d ic oc 3 1 reflect w1 b1, initialize_layer n1, GELU,
        Conv2d oc oc 3 1 reflect w2 b2, initialize_layer n2, GELU]" and
    pool: "EncoderBlockV2.pool blk = (if p then Some (MaxPool2d 2 2) else None)" and
    n1: "norm_init bn oc = Inr n1" and n2: "norm_init bn oc = Inr n2"
    unfolding blk by (rule EncoderBlockV2_initE)
  show ?thesis
    unfolding EncoderBlockV2_forward_fst enc pool hp wp EncoderBlockV2_graph_def
    by (cases p)
      (auto simp: bindE_eq_Inr pool_iff cna_iff [OF n1] cna_iff [OF n2] Sequential_Nil_iff
        Sequential_graph_def pool_half
        simp del: Sequential_forward.simps layer_forward.simps)
qed


lemma DecoderBlockV2_initE:
  assumes "DecoderBlockV2_init ic mc oc bn = Inr blk"
  obtains w1 b1 n1 w2 b2 n2 where
    "DecoderBlockV2.decode (initialize_decoderV2 blk) =
       [Conv2d ic mc 3 1 reflect w1 b1, initialize_layer n1, GELU,
        Conv2d mc oc 3 1 reflect w2 b2, initialize_layer n2, GELU]"
    "norm_init bn mc = Inr n1" "norm_init bn oc = Inr n2"
proof -
  from assms obtain c1 n1 c2 n2 where
    c1: "Conv2d_init ic mc 3 1 reflect = Inr c1" and n1: "norm_init bn mc = Inr n1" and
    c2: "Conv2d_init mc oc 3 1 reflect = Inr c2" and n2: "norm_init bn oc = Inr n2" and
    blk: "blk = \<lparr>DecoderBlockV2.decode = [c1, n1, GELU, c2, n2, GELU]\<rparr>"
    by (auto simp: DecoderBlockV2_init_def bindE_eq_Inr)
  from c1 obtain w1 b1 where w1: "initialize_layer c1 = Conv2d ic mc 3 1 reflect w1 b1"
    by (rule Conv2d_initE)
  from c2 obtain w2 b2 where w2: "initialize_layer c2 = Conv2d mc oc 3 1 reflect w2 b2"
    by (rule Conv2d_initE)
  show thesis
    by (rule that [OF _ n1 n2]) (simp_all add: blk initialize_decoderV2_def w1 w2)
qed

lemma DecoderBlockV2_iff:
  assumes init: "DecoderBlockV2_init ic mc oc bn = Inr blk0"
    and blk: "blk = initialize_decoderV2 blk0"
  shows "fst (DecoderBlockV2_forward blk x) = Inr y \<longleftrightarrow>
     channels x = ic \<and> 2 \<le> height x \<and> 2 \<le> width x \<and>
     norm_accepts bn mc (batch x) (height x) (width x) \<and>
     norm_accepts bn oc (batch x) (height x) (width x) \<and>
     y = tensor_of (batch x, oc, height x, width x)
           (Sequential_graph (DecoderBlockV2.decode blk) (grad_fn x))"
proof -
  from init obtain w1 b1 n1 w2 b2 n2 where
    dec: "DecoderBlockV2.decode blk =
       [Conv2d ic mc 3 1 reflect w1 b1, initialize_layer n1, GELU,
        Conv2d mc oc 3 1 reflect w2 b2, initialize_layer n2, GELU]" and
    n1: "norm_init bn mc = Inr n1" and n2: "norm_init bn oc = Inr n2"
    unfolding blk by (rule DecoderBlockV2_initE)
  show ?thesis
    unfolding DecoderBlockV2_forward_fst dec
    by (auto simp: cna_iff [OF n1] cna_iff [OF n2] Sequential_Nil_iff Sequential_graph_def
        simp del: Sequential_forward.simps layer_forward.simps)
qed

lemma EncoderBlock_forward_fst:
  "fst (EncoderBlock_forward self x) =
     bindE (case EncoderBlock.pool self of None \<Rightarrow> Inr x | Some p \<Rightarrow> fst (layer_forward p x)) (\<lambda>x.
     fst (Sequential_forward (EncoderBlock.encode self) x))"
  unfolding EncoderBlock_forward_def
  by (cases "EncoderBlock.pool self") (simp_all add: run_simps)

lemma DecoderBlock_forward_fst:
  "fst (DecoderBlock_forward self x) = fst (Sequential_forward (DecoderBlock.decode self) x)"
  unfolding DecoderBlock_forward_def by (simp add: run_simps)

lemma ConvTranspose2d_initE:
  assumes "ConvTranspose2d_init ic oc k s = Inr c"
  obtains w b where "initialize_layer c = ConvTranspose2d ic oc k s w b"
  using assms by (auto simp: ConvTranspose2d_init_def torch_empty_def bindE_eq_Inr split: if_splits)

lemma EncoderBlock_initE:
  assumes "EncoderBlock_init ic oc False p bn = Inr blk"
  obtains w1 b1 n1 w2 b2 n2 where
    "EncoderBlock.encode (initialize_encoder blk) =
       [Conv2d ic oc 3 1 zeros w1 b1, initialize_layer n1, ReLU True,
        Conv2d oc oc 3 1 zeros w2 b2, initialize_layer n2, ReLU True]"
    "EncoderBlock.pool (initialize_encoder blk) = (if p then Some (MaxPool2d 2 2) else None)"
    "norm_init bn oc = Inr n1" "norm_init bn oc = Inr n2"
proof -
  from assms obtain c1 n1 c2 n2 where
    c1: "Conv2d_init ic oc 3 1 zeros = Inr c1" and n1: "norm_init bn oc = Inr n1" and
    c2: "Conv2d_init oc oc 3 1 zeros = Inr c2" and n2: "norm_init bn oc = Inr n2" and
    blk: "blk = \<lparr>EncoderBlock.encode = [c1, n1, ReLU True, c2, n2, ReLU True],
                  pool = (if p then Some (MaxPool2d 2 2) else None)\<rparr>"
    by (auto simp: EncoderBlock_init_def bindE_eq_Inr)
  from c1 obtain w1 b1 where w1: "initialize_layer c1 = Conv2d ic oc 3 1 zeros w1 b1"
    by (rule Conv2d_initE)
  from c2 obtain w2 b2 where w2: "initialize_layer c2 = Conv2d oc oc 3 1 zeros w2 b2"
    by (rule Conv2d_initE)
  show thesis
    by (rule that [OF _ _ n1 n2]) (simp_all add: blk initialize_encoder_def w1 w2)
qed

lemma EncoderBlock_iff:
  assumes init: "EncoderBlock_init ic oc False p bn = Inr blk0"
    and blk: "blk = initialize_encoder blk0"
    and hp: "hp = (if p then height x div 2 else height x)"
    and wp: "wp = (if p then width x div 2 else width x)"
  shows "fst (EncoderBlock_forward blk x) = Inr y \<longleftrightarrow>
     channels x = ic \<and> 1 \<le> hp \<and> 1 \<le> wp \<and> norm_accepts bn oc (batch x) hp wp \<and>
     y = tensor_of (batch x, oc, hp, wp) (EncoderBlock_graph blk (grad_fn x))"
proof -
  from init obtain w1 b1 n1 w2 b2 n2 where
    enc: "EncoderBlock.encode blk =
       [Conv2d ic oc 3 1 zeros w1 b1, initialize_layer n1, ReLU True,
        Conv2d oc oc 3 1 zeros w2 b2, initialize_layer n2, ReLU True]" and
    pool: "EncoderBlock.pool blk = (if p then Some (MaxPool2d 2 2) else None)" and
    n1: "norm_init bn oc = Inr n1" and n2: "norm_init bn oc = Inr n2"
    unfolding blk by (rule EncoderBlock_initE)
  show ?thesis
    unfolding EncoderBlock_forward_fst enc pool hp wp EncoderBlock_graph_def
    by (cases p)
      (auto simp: bindE_eq_Inr pool_iff cna_iff [OF n1] cna_iff [OF n2] Sequential_Nil_iff
        Sequential_graph_def pool_half
        simp del: Sequential_forward.simps layer_forward.simps)
qed

lemma DecoderBlock_initE:
  assumes "DecoderBlock_init ic mc oc bn = Inr blk"
  obtains w1 b1 n1 w2 b2 n2 w3 b3 where
    "DecoderBlock.decode (initialize_decoder blk) =
       [Conv2d ic mc 3 1 zeros w1 b1, initialize_layer n1, ReLU True,
        Conv2d mc mc 3 1 zeros w2 b2, initialize_layer n2, ReLU True,
        ConvTranspose2d mc oc 2 2 w3 b3]"
    "norm_init bn mc = Inr n1" "norm_init bn mc = Inr n2"
proof -
  from assms obtain c1 n1 c2 n2 up where
    c1: "Conv2d_init ic mc 3 1 zeros = Inr c1" and n1: "norm_init bn mc = Inr n1" and
    c2: "Conv2d_init mc mc 3 1 zeros = Inr c2" and n2: "norm_init bn mc = Inr n2" and
    up: "ConvTranspose2d_init mc oc 2 2 = Inr up" and
    blk: "blk = \<lparr>DecoderBlock.decode = [c1, n1, ReLU True, c2, n2, ReLU True, up]\<rparr>"
    by (auto simp: DecoderBlock_init_def bindE_eq_Inr)
  from c1 obtain w1 b1 where w1: "initialize_layer c1 = Conv2d ic mc 3 1 zeros w1 b1"
    by (rule Conv2d_initE)
  from c2 obtain w2 b2 where w2: "initialize_layer c2 = Conv2d mc mc 3 1 zeros w2 b2"
    by (rule Conv2d_initE)
  from up obtain w3 b3 where w3: "initialize_layer up = ConvTranspose2d mc oc 2 2 w3 b3"
    by (rule ConvTranspose2d_initE)
  show thesis
    by (rule that [OF _ n1 n2]) (simp_all add: blk initialize_decoder_def w1 w2 w3)
qed

lemma DecoderBlock_iff:
  assumes init: "DecoderBlock_init ic mc oc bn = Inr blk0"
    and blk: "blk = initialize_decoder blk0"
  shows "fst (DecoderBlock_forward blk x) = Inr y \<longleftrightarrow>
     channels x = ic \<and> 1 \<le> height x \<and> 1 \<le> width x \<and>
     norm_accepts bn mc (batch x) (height x) (width x) \<and>
     y = tensor_of (batch x, oc, 2 * height x, 2 * width x)
           (Sequential_graph (DecoderBlock.decode blk) (grad_fn x))"
proof -
  from init obtain w1 b1 n1 w2 b2 n2 w3 b3 where
    dec: "DecoderBlock.decode blk =
       [Conv2d ic mc 3 1 zeros w1 b1, initialize_layer n1, ReLU True,
        Conv2d mc mc 3 1 zeros w2 b2, initialize_layer n2, ReLU True,
        ConvTranspose2d mc oc 2 2 w3 b3]" and
    n1: "norm_init bn mc = Inr n1" and n2: "norm_init bn mc = Inr n2"
    unfolding blk by (rule DecoderBlock_initE)
  have up: "fst (Sequential_forward [ConvTranspose2d mc oc 2 2 w3 b3] z) = Inr y \<longleftrightarrow>
      channels z = mc \<and> 1 \<le> 2 * height z \<and> 1 \<le> 2 * width z \<and>
      y = tensor_of (batch z, oc, 2 * height z, 2 * width z)
            (Apply (ConvTranspose2d mc oc 2 2 w3 b3) (grad_fn z))" for z
    by (auto simp: Sequential_Cons_iff Sequential_Nil_iff ConvTranspose2d_iff
        simp del: Sequential_forward.simps layer_forward.simps)
  show ?thesis
    unfolding DecoderBlock_forward_fst dec
    by (auto simp: cna_iff [OF n1] cna_iff [OF n2] up Sequential_graph_def
        simp del: Sequential_forward.simps layer_forward.simps)
qed

lemma UNetV2_forward_fst:
  "fst (UNetV2_forward self x) =
     bindE (fst (EncoderBlockV2_forward (UNetV2.enc1 self) x)) (\<lambda>enc1.
     bindE (fst (EncoderBlockV2_forward (UNetV2.enc2 self) enc1)) (\<lambda>enc2.
     bindE (fst (EncoderBlockV2_forward (UNetV2.enc3 self) enc2)) (\<lambda>enc3.
     bindE (fst (EncoderBlockV2_forward (UNetV2.enc4 self) enc3)) (\<lambda>enc4.
     bindE (fst (layer_forward (UNetV2.polling self) enc4)) (\<lambda>pooled.
     bindE (fst (DecoderBlockV2_forward (UNetV2.center self) pooled)) (\<lambda>center.
     bindE (interpolate center (size2 enc4) False) (\<lambda>up4.
     bindE (cat up4 enc4) (\<lambda>cat4.
     bindE (fst (DecoderBlockV2_forward (UNetV2.dec4 self) cat4)) (\<lambda>dec4.
     bindE (interpolate dec4 (size2 enc3) False) (\<lambda>up3.
     bindE (cat up3 enc3) (\<lambda>cat3.
     bindE (fst (DecoderBlockV2_forward (UNetV2.dec3 self) cat3)) (\<lambda>dec3.
     bindE (interpolate dec3 (size2 enc2) False) (\<lambda>up2.
     bindE (cat up2 enc2) (\<lambda>cat2.
     bindE (fst (DecoderBlockV2_forward (UNetV2.dec2 self) cat2)) (\<lambda>dec2.
     bindE (interpolate dec2 (size2 enc1) False) (\<lambda>up1.
     bindE (cat up1 enc1) (\<lambda>cat1.
     bindE (fst (Sequential_forward (UNetV2.dec1 self) cat1)) (\<lambda>dec1.
     bindE (fst (layer_forward (UNetV2.final self) dec1)) (\<lambda>final.
     if UNetV2.multi_scale self then
       bindE (case UNetV2.conv_8 self of None \<Rightarrow> Inl AttributeError | Some l \<Rightarrow> fst (layer_forward l dec4)) (\<lambda>out8.
       bindE (case UNetV2.conv_4 self of None \<Rightarrow> Inl AttributeError | Some l \<Rightarrow> fst (layer_forward l dec3)) (\<lambda>out4.
       bindE (case UNetV2.conv_2 self of None \<Rightarrow> Inl AttributeError | Some l \<Rightarrow> fst (layer_forward l dec2)) (\<lambda>out2.
       Inr (Tuple4 out8 out4 out2 final))))
     else Inr (Single final))))))))))))))))))))"
  unfolding UNetV2_forward_def
  by (cases "UNetV2.multi_scale self"; cases "UNetV2.conv_8 self"; cases "UNetV2.conv_4 self";
      cases "UNetV2.conv_2 self") (simp_all add: run_simps)



lemma head_initE:
  assumes "head_init ms c nc = Inr h"
  shows "ms \<Longrightarrow> \<exists>w b. map_option initialize_layer h = Some (Conv2d c nc 1 0 zeros w b)"
    and "\<not> ms \<Longrightarrow> h = None"
  using assms
  by (auto simp: head_init_def bindE_eq_Inr Conv2d_init_def torch_empty_def split: if_splits)

lemma UNetV2_init_fields:
  assumes "UNetV2_init nc ic bn f ms = Inr m"
  shows "\<exists>e. EncoderBlockV2_init ic (32 * f) False False bn = Inr e \<and> UNetV2.enc1 m = initialize_encoderV2 e"
    and "\<exists>e. EncoderBlockV2_init (32 * f) (64 * f) False True bn = Inr e \<and> UNetV2.enc2 m = initialize_encoderV2 e"
    and "\<exists>e. EncoderBlockV2_init (64 * f) (128 * f) False True bn = Inr e \<and> UNetV2.enc3 m = initialize_encoderV2 e"
    and "\<exists>e. EncoderBlockV2_init (128 * f) (256 * f) False True bn = Inr e \<and> UNetV2.enc4 m = initialize_encoderV2 e"
    and "UNetV2.polling m = AvgPool2d 2 2"
    and "\<exists>d. DecoderBlockV2_init (256 * f) (512 * f) (256 * f) bn = Inr d \<and> UNetV2.center m = initialize_decoderV2 d"
    and "\<exists>d. DecoderBlockV2_init (512 * f) (256 * f) (128 * f) bn = Inr d \<and> UNetV2.dec4 m = initialize_decoderV2 d"
    and "\<exists>d. DecoderBlockV2_init (256 * f) (128 * f) (64 * f) bn = Inr d \<and> UNetV2.dec3 m = initialize_decoderV2 d"
    and "\<exists>d. DecoderBlockV2_init (128 * f) (64 * f) (32 * f) bn = Inr d \<and> UNetV2.dec2 m = initialize_decoderV2 d"
    and "\<exists>w1 b1 n1 w2 b2 n2. UNetV2.dec1 m =
           [Conv2d (64 * f) (32 * f) 3 1 reflect w1 b1, initialize_layer n1, GELU,
            Conv2d (32 * f) (32 * f) 1 0 zeros w2 b2, initialize_layer n2, GELU] \<and>
           norm_init bn (32 * f) = Inr n1 \<and> norm_init bn (32 * f) = Inr n2"
    and "\<exists>w b. UNetV2.final m = Conv2d (32 * f) nc 1 0 zeros w b"
    and "UNetV2.multi_scale m = ms"
    and "ms \<Longrightarrow> \<exists>w b. UNetV2.conv_8 m = Some (Conv2d (128 * f) nc 1 0 zeros w b)"
    and "ms \<Longrightarrow> \<exists>w b. UNetV2.conv_4 m = Some (Conv2d (64 * f) nc 1 0 zeros w b)"
    and "ms \<Longrightarrow> \<exists>w b. UNetV2.conv_2 m = Some (Conv2d (32 * f) nc 1 0 zeros w b)"
proof -
  from assms obtain e1 e2 e3 e4 c d4 d3 d2 c1 n1 c2 n2 h8 h4 h2 fl where
    e: "EncoderBlockV2_init ic (32 * f) False False bn = Inr e1"
       "EncoderBlockV2_init (32 * f) (64 * f) False True bn = Inr e2"
       "EncoderBlockV2_init (64 * f) (128 * f) False True bn = Inr e3"
       "EncoderBlockV2_init (128 * f) (256 * f) False True bn = Inr e4" and
    d: "DecoderBlockV2_init (256 * f) (512 * f) (256 * f) bn = Inr c"
       "DecoderBlockV2_init (512 * f) (256 * f) (128 * f) bn = Inr d4"
       "DecoderBlockV2_init (256 * f) (128 * f) (64 * f) bn = Inr d3"
       "DecoderBlockV2_init (128 * f) (64 * f) (32 * f) bn = Inr d2" and
    l: "Conv2d_init (64 * f) (32 * f) 3 1 reflect = Inr c1" "norm_init bn (32 * f) = Inr n1"
       "Conv2d_init (32 * f) (32 * f) 1 0 zeros = Inr c2" "norm_init bn (32 * f) = Inr n2" and
    h: "head_init ms (128 * f) nc = Inr h8" "head_init ms (64 * f) nc = Inr h4"
       "head_init ms (32 * f) nc = Inr h2" and
    fl: "Conv2d_init (32 * f) nc 1 0 zeros = Inr fl" and
    m: "m = initialize_weightsV2
       \<lparr>multi_scale = ms,
        enc1 = e1, enc2 = e2, enc3 = e3, enc4 = e4, polling = AvgPool2d 2 2,
        center = c, dec4 = d4, dec3 = d3, dec2 = d2,
        dec1 = [c1, n1, GELU, c2, n2, GELU],
        conv_8 = h8, conv_4 = h4, conv_2 = h2,
        final = fl\<rparr>"
    unfolding UNetV2_init_def bindE_eq_Inr by blast
  show "\<exists>e. EncoderBlockV2_init ic (32 * f) False False bn = Inr e \<and> UNetV2.enc1 m = initialize_encoderV2 e"
    and "\<exists>e. EncoderBlockV2_init (32 * f) (64 * f) False True bn = Inr e \<and> UNetV2.enc2 m = initialize_encoderV2 e"
    and "\<exists>e. EncoderBlockV2_init (64 * f) (128 * f) False True bn = Inr e \<and> UNetV2.enc3 m = initialize_encoderV2 e"
    and "\<exists>e. EncoderBlockV2_init (128 * f) (256 * f) False True bn = Inr e \<and> UNetV2.enc4 m = initialize_encoderV2 e"
    and "UNetV2.polling m = AvgPool2d 2 2"
    and "\<exists>d. DecoderBlockV2_init (256 * f) (512 * f) (256 * f) bn = Inr d \<and> UNetV2.center m = initialize_decoderV2 d"
    and "\<exists>d. DecoderBlockV2_init (512 * f) (256 * f) (128 * f) bn = Inr d \<and> UNetV2.dec4 m = initialize_decoderV2 d"
    and "\<exists>d. DecoderBlockV2_init (256 * f) (128 * f) (64 * f) bn = Inr d \<and> UNetV2.dec3 m = initialize_decoderV2 d"
    and "\<exists>d. DecoderBlockV2_init (128 * f) (64 * f) (32 * f) bn = Inr d \<and> UNetV2.dec2 m = initialize_decoderV2 d"
    and "UNetV2.multi_scale m = ms"
    by (simp_all add: m e d initialize_weightsV2_def)
  from l(1) obtain w1 b1 where w1: "initialize_layer c1 = Conv2d (64 * f) (32 * f) 3 1 reflect w1 b1"
    by (rule Conv2d_initE)
  from l(3) obtain w2 b2 where w2: "initialize_layer c2 = Conv2d (32 * f) (32 * f) 1 0 zeros w2 b2"
    by (rule Conv2d_initE)
  show "\<exists>w1 b1 n1 w2 b2 n2. UNetV2.dec1 m =
           [Conv2d (64 * f) (32 * f) 3 1 reflect w1 b1, initialize_layer n1, GELU,
            Conv2d (32 * f) (32 * f) 1 0 zeros w2 b2, initialize_layer n2, GELU] \<and>
           norm_init bn (32 * f) = Inr n1 \<and> norm_init bn (32 * f) = Inr n2"
    using l(2,4) by (simp add: m initialize_weightsV2_def w1 w2)
  from fl obtain w b where "initialize_layer fl = Conv2d (32 * f) nc 1 0 zeros w b"
    by (rule Conv2d_initE)
  then show "\<exists>w b. UNetV2.final m = Conv2d (32 * f) nc 1 0 zeros w b"
    by (simp add: m initialize_weightsV2_def)
  show "ms \<Longrightarrow> \<exists>w b. UNetV2.conv_8 m = Some (Conv2d (128 * f) nc 1 0 zeros w b)"
    using head_initE(1) [OF h(1)] by (simp add: m initialize_weightsV2_def)
  show "ms \<Longrightarrow> \<exists>w b. UNetV2.conv_4 m = Some (Conv2d (64 * f) nc 1 0 zeros w b)"
    using head_initE(1) [OF h(2)] by (simp add: m initialize_weightsV2_def)
  show "ms \<Longrightarrow> \<exists>w b. UNetV2.conv_2 m = Some (Conv2d (32 * f) nc 1 0 zeros w b)"
    using head_initE(1) [OF h(3)] by (simp add: m initialize_weightsV2_def)
qed


lemma prod3_ne_1:
  fixes a h w :: int
  assumes "1 \<le> a" "1 \<le> h" "1 \<le> w" "2 \<le> a \<or> 2 \<le> h \<or> 2 \<le> w"
  shows "a * h * w \<noteq> 1"
proof
  assume eq: "a * h * w = 1"
  from assms have "0 < a * h" by simp
  with eq have "a * h = 1" and w: "w = 1" by (simp_all add: pos_zmult_eq_1_iff)
  with assms have "a = 1 \<and> h = 1" by (simp add: pos_zmult_eq_1_iff)
  with w assms(4) show False by simp
qed

lemma norm_accepts_ok:
  assumes "c mod 32 = 0" "32 \<le> c" "1 \<le> n" "1 \<le> h" "1 \<le> w"
    and "2 \<le> h \<or> 2 \<le> w \<or> (\<not> bn \<and> 64 \<le> c)"
  shows "norm_accepts bn c n h w"
proof -
  from assms(1) obtain j where c: "c = 32 * j" by (auto simp: mod_eq_0_iff_dvd)
  with assms(2) have j: "1 \<le> j" by simp
  have d: "(n * c) div 32 = n * j" by (simp add: c)
  have nj: "1 \<le> n * j" using assms(3) j by (simp add: mult_le_cancel_left1 order_trans [OF _ mult_mono [of 1 n 1 j]])
  show ?thesis
  proof (cases bn)
    case True
    with assms(6) have "2 \<le> h \<or> 2 \<le> w" by simp
    then have "n * h * w \<noteq> 1" using assms by (intro prod3_ne_1) auto
    with True show ?thesis by (simp add: norm_accepts_def)
  next
    case False
    have "2 \<le> n * j \<or> 2 \<le> h \<or> 2 \<le> w"
    proof (cases "64 \<le> c")
      case True
      then have "2 \<le> j" by (simp add: c)
      then have "2 * 1 \<le> j * n" using assms(3) by (intro mult_mono) auto
      then show ?thesis by (simp add: mult.commute)
    next
      case False
      with assms(6) show ?thesis by auto
    qed
    then have "n * j * h * w \<noteq> 1" using nj assms by (intro prod3_ne_1) auto
    with False assms(1) show ?thesis by (simp add: norm_accepts_def d)
  qed
qed

lemmas ctor_defs = EncoderBlockV2_init_def DecoderBlockV2_init_def head_init_def
  EncoderBlock_init_def DecoderBlock_init_def ConvTranspose2d_init_def
  Conv2d_init_def norm_init_def GroupNorm_init_def BatchNorm2d_init_def torch_empty_def

lemma UNetV2_init_succeeds:
  assumes "0 \<le> nc" "0 \<le> ic" "0 \<le> f"
  shows "\<exists>m. UNetV2_init nc ic bn f ms = Inr m"
  using assms by (cases bn; cases ms) (simp_all add: UNetV2_init_def ctor_defs)

lemma UNet_init_succeeds:
  assumes "0 \<le> nc" "0 \<le> ic"
  shows "\<exists>m. UNet_init nc ic bn = Inr m"
  using assms by (cases bn) (simp_all add: UNet_init_def ctor_defs)

section \<open>Pooling in UNetV2\<close>

text \<open>
  C4 (as the code has it). In a constructed \<^verbatim>\<open>UNetV2\<close> the leading pool of \<^verbatim>\<open>enc2\<close>,
  \<^verbatim>\<open>enc3\<close> and \<^verbatim>\<open>enc4\<close> is a 2 x 2, stride 2 max-pooling (\<^verbatim>\<open>enc1\<close> has none); only the
  pooling between \<^verbatim>\<open>enc4\<close> and \<^verbatim>\<open>center\<close> is an average-pooling.
\<close>

theorem UNetV2_pools_max_then_avg:
  assumes "0 \<le> nc" "0 \<le> ic" "0 \<le> f"
  shows "\<exists>m. UNetV2_init nc ic bn f ms = Inr m \<and>
     UNetV2_encoder_pools m =
       [None, Some (MaxPool2d 2 2), Some (MaxPool2d 2 2), Some (MaxPool2d 2 2)] \<and>
     UNetV2.polling m = AvgPool2d 2 2"
proof -
  from assms obtain m where m: "UNetV2_init nc ic bn f ms = Inr m"
    using UNetV2_init_succeeds by blast
  note fl = UNetV2_init_fields [OF m]
  from fl(1) obtain e1 where e1: "EncoderBlockV2_init ic (32 * f) False False bn = Inr e1"
    "UNetV2.enc1 m = initialize_encoderV2 e1" by blast
  from fl(2) obtain e2 where e2: "EncoderBlockV2_init (32 * f) (64 * f) False True bn = Inr e2"
    "UNetV2.enc2 m = initialize_encoderV2 e2" by blast
  from fl(3) obtain e3 where e3: "EncoderBlockV2_init (64 * f) (128 * f) False True bn = Inr e3"
    "UNetV2.enc3 m = initialize_encoderV2 e3" by blast
  from fl(4) obtain e4 where e4: "EncoderBlockV2_init (128 * f) (256 * f) False True bn = Inr e4"
    "UNetV2.enc4 m = initialize_encoderV2 e4" by blast
  have "EncoderBlockV2.pool (UNetV2.enc1 m) = None"
    using EncoderBlockV2_initE [OF e1(1)] e1(2) by (metis (full_types))
  moreover have "EncoderBlockV2.pool (UNetV2.enc2 m) = Some (MaxPool2d 2 2)"
    using EncoderBlockV2_initE [OF e2(1)] e2(2) by (metis (full_types))
  moreover have "EncoderBlockV2.pool (UNetV2.enc3 m) = Some (MaxPool2d 2 2)"
    using EncoderBlockV2_initE [OF e3(1)] e3(2) by (metis (full_types))
  moreover have "EncoderBlockV2.pool (UNetV2.enc4 m) = Some (MaxPool2d 2 2)"
    using EncoderBlockV2_initE [OF e4(1)] e4(2) by (metis (full_types))
  ultimately show ?thesis
    using m fl(5) by (simp add: UNetV2_encoder_pools_def)
qed

theorem UNetV2_pools_witness:
  "\<exists>m. UNetV2_init 1 1 False 2 True = Inr m \<and>
     UNetV2_encoder_pools m =
       [None, Some (MaxPool2d 2 2), Some (MaxPool2d 2 2), Some (MaxPool2d 2 2)] \<and>
     UNetV2.polling m = AvgPool2d 2 2"
  using UNetV2_pools_max_then_avg [of 1 1 2 False True] by simp

text \<open>
  C4 as stated fails: the leading pools of the encoder blocks of
  \<^verbatim>\<open>UNetV2(in_channels=1, num_classes=1)\<close> are max-poolings, not average-poolings.
\<close>

theorem UNetV2_encoder_pools_not_average:
  "map_sum id UNetV2_encoder_pools (UNetV2_init 1 1 False 2 True) =
     Inr [None, Some (MaxPool2d 2 2), Some (MaxPool2d 2 2), Some (MaxPool2d 2 2)] \<and>
   map_sum id UNetV2_encoder_pools (UNetV2_init 1 1 False 2 True) \<noteq>
     Inr [None, Some (AvgPool2d 2 2), Some (AvgPool2d 2 2), Some (AvgPool2d 2 2)]"
  by code_simp

section \<open>Construction and group normalisation\<close>

lemma bindE_eq_Inl: "bindE m f = Inl e \<longleftrightarrow> m = Inl e \<or> (\<exists>a. m = Inr a \<and> f a = Inl e)"
  by (cases m) simp_all

lemma torch_empty_Inl: "torch_empty ds = Inl e \<Longrightarrow> e = NegativeDimension"
  by (simp add: torch_empty_def split: if_splits)

lemma Conv2d_init_Inl: "Conv2d_init ic oc k p pm = Inl e \<Longrightarrow> e = NegativeDimension"
  by (auto simp: Conv2d_init_def bindE_eq_Inl dest: torch_empty_Inl)

lemma ConvTranspose2d_init_Inl: "ConvTranspose2d_init ic oc k s = Inl e \<Longrightarrow> e = NegativeDimension"
  by (auto simp: ConvTranspose2d_init_def bindE_eq_Inl dest: torch_empty_Inl)

lemma norm_init_Inl: "norm_init bn c = Inl e \<Longrightarrow> c mod 32 = 0 \<Longrightarrow> e = NegativeDimension"
  by (auto simp: norm_init_def GroupNorm_init_def BatchNorm2d_init_def bindE_eq_Inl
      dest: torch_empty_Inl split: if_splits)

lemma EncoderBlock_init_Inl:
  "EncoderBlock_init ic oc d p bn = Inl e \<Longrightarrow> oc mod 32 = 0 \<Longrightarrow> e = NegativeDimension"
  by (auto simp: EncoderBlock_init_def bindE_eq_Inl dest: Conv2d_init_Inl norm_init_Inl)

lemma DecoderBlock_init_Inl:
  "DecoderBlock_init ic mc oc bn = Inl e \<Longrightarrow> mc mod 32 = 0 \<Longrightarrow> e = NegativeDimension"
  by (auto simp: DecoderBlock_init_def bindE_eq_Inl
      dest: Conv2d_init_Inl norm_init_Inl ConvTranspose2d_init_Inl)

lemma EncoderBlockV2_init_Inl:
  "EncoderBlockV2_init ic oc d p bn = Inl e \<Longrightarrow> oc mod 32 = 0 \<Longrightarrow> e = NegativeDimension"
  by (auto simp: EncoderBlockV2_init_def bindE_eq_Inl dest: Conv2d_init_Inl norm_init_Inl)

lemma DecoderBlockV2_init_Inl:
  "DecoderBlockV2_init ic mc oc bn = Inl e \<Longrightarrow> mc mod 32 = 0 \<Longrightarrow> oc mod 32 = 0 \<Longrightarrow>
     e = NegativeDimension"
  by (auto simp: DecoderBlockV2_init_def bindE_eq_Inl dest: Conv2d_init_Inl norm_init_Inl)

lemma head_init_Inl: "head_init ms c nc = Inl e \<Longrightarrow> e = NegativeDimension"
  by (auto simp: head_init_def bindE_eq_Inl dest: Conv2d_init_Inl split: if_splits)

lemma UNet_init_Inl: "UNet_init nc ic bn = Inl e \<Longrightarrow> e = NegativeDimension"
  unfolding UNet_init_def bindE_eq_Inl
  by (elim disjE exE conjE)
    (auto dest: EncoderBlock_init_Inl DecoderBlock_init_Inl Conv2d_init_Inl norm_init_Inl)

lemma UNetV2_init_Inl: "UNetV2_init nc ic bn f ms = Inl e \<Longrightarrow> e = NegativeDimension"
  unfolding UNetV2_init_def bindE_eq_Inl
  by (elim disjE exE conjE)
    (auto dest: EncoderBlockV2_init_Inl DecoderBlockV2_init_Inl Conv2d_init_Inl norm_init_Inl
      head_init_Inl)

lemma UNet_group_norms_init:
  assumes "0 \<le> nc" "0 \<le> ic"
  shows "\<exists>m. UNet_init nc ic False = Inr m \<and>
     UNet_group_norms m =
       [(32, 64), (32, 64), (32, 128), (32, 128), (32, 256), (32, 256), (32, 512), (32, 512),
        (32, 1024), (32, 1024), (32, 512), (32, 512), (32, 256), (32, 256), (32, 128), (32, 128),
        (32, 64), (32, 64)]"
  using assms
  by (simp add: UNet_init_def ctor_defs initialize_weights_def initialize_encoder_def
      initialize_decoder_def UNet_group_norms_def UNet_layers_def EncoderBlock_layers_def)

lemma UNetV2_group_norms_init:
  assumes "0 \<le> nc" "0 \<le> ic" "0 \<le> f"
  shows "\<exists>m. UNetV2_init nc ic False f ms = Inr m \<and>
     UNetV2_group_norms m =
       [(32, 32 * f), (32, 32 * f), (32, 64 * f), (32, 64 * f), (32, 128 * f), (32, 128 * f),
        (32, 256 * f), (32, 256 * f), (32, 512 * f), (32, 256 * f), (32, 256 * f), (32, 128 * f),
        (32, 128 * f), (32, 64 * f), (32, 64 * f), (32, 32 * f), (32, 32 * f), (32, 32 * f)]"
  using assms
  by (cases ms)
    (simp_all add: UNetV2_init_def ctor_defs initialize_weightsV2_def initialize_encoderV2_def
      initialize_decoderV2_def UNetV2_group_norms_def UNetV2_layers_def EncoderBlockV2_layers_def)

text \<open>
  C8. With \<^verbatim>\<open>bn = False\<close> every \<^verbatim>\<open>GroupNorm\<close> of either network has 32 groups and a channel
  count that is a multiple of 32: 64, 128, 256, 512, 1024 in UNet, and 32, 64, 128, 256, 512
  times \<^verbatim>\<open>factors\<close> in UNetV2. Construction never raises the group-divisibility error, and
  for non-negative channel counts and positive \<^verbatim>\<open>factors\<close> it succeeds.
\<close>

theorem group_norm_channels_divisible:
  "(\<forall>c g. UNet_init num_classes in_channels False \<noteq> Inl (NotDivisibleByGroups c g) \<and>
          UNetV2_init num_classes in_channels False factors multi_scale' \<noteq> Inl (NotDivisibleByGroups c g)) \<and>
   (0 \<le> num_classes \<and> 0 \<le> in_channels \<and> 0 < factors \<longrightarrow>
     (\<exists>m. UNet_init num_classes in_channels False = Inr m \<and>
          set (UNet_group_norms m) = {(32, 64), (32, 128), (32, 256), (32, 512), (32, 1024)} \<and>
          (\<forall>(g, c) \<in> set (UNet_group_norms m). c mod g = 0)) \<and>
     (\<exists>m. UNetV2_init num_classes in_channels False factors multi_scale' = Inr m \<and>
          set (UNetV2_group_norms m) =
            {(32, 32 * factors), (32, 64 * factors), (32, 128 * factors), (32, 256 * factors),
             (32, 512 * factors)} \<and>
          (\<forall>(g, c) \<in> set (UNetV2_group_norms m). c mod g = 0)))"
proof (intro conjI allI impI)
  fix c g
  show "UNet_init num_classes in_channels False \<noteq> Inl (NotDivisibleByGroups c g)"
    using UNet_init_Inl by blast
  show "UNetV2_init num_classes in_channels False factors multi_scale' \<noteq> Inl (NotDivisibleByGroups c g)"
    using UNetV2_init_Inl by blast
next
  assume cfg: "0 \<le> num_classes \<and> 0 \<le> in_channels \<and> 0 < factors"
  then obtain m1 where m1: "UNet_init num_classes in_channels False = Inr m1"
    and g1: "UNet_group_norms m1 =
       [(32, 64), (32, 64), (32, 128), (32, 128), (32, 256), (32, 256), (32, 512), (32, 512),
        (32, 1024), (32, 1024), (32, 512), (32, 512), (32, 256), (32, 256), (32, 128), (32, 128),
        (32, 64), (32, 64)]"
    using UNet_group_norms_init by blast
  have "set (UNet_group_norms m1) = {(32, 64), (32, 128), (32, 256), (32, 512), (32, 1024)}"
    unfolding g1 by auto
  moreover have "\<forall>(g, c) \<in> set (UNet_group_norms m1). c mod g = 0"
    unfolding g1 by simp
  ultimately show "\<exists>m. UNet_init num_classes in_channels False = Inr m \<and>
          set (UNet_group_norms m) = {(32, 64), (32, 128), (32, 256), (32, 512), (32, 1024)} \<and>
          (\<forall>(g, c) \<in> set (UNet_group_norms m). c mod g = 0)"
    using m1 by blast
next
  assume cfg: "0 \<le> num_classes \<and> 0 \<le> in_channels \<and> 0 < factors"
  then obtain m2 where m2: "UNetV2_init num_classes in_channels False factors multi_scale' = Inr m2"
    and g2: "UNetV2_group_norms m2 =
       [(32, 32 * factors), (32, 32 * factors), (32, 64 * factors), (32, 64 * factors),
        (32, 128 * factors), (32, 128 * factors), (32, 256 * factors), (32, 256 * factors),
        (32, 512 * factors), (32, 256 * factors), (32, 256 * factors), (32, 128 * factors),
        (32, 128 * factors), (32, 64 * factors), (32, 64 * factors), (32, 32 * factors),
        (32, 32 * factors), (32, 32 * factors)]"
    using UNetV2_group_norms_init [of num_classes in_channels factors multi_scale'] by auto
  have "set (UNetV2_group_norms m2) =
            {(32, 32 * factors), (32, 64 * factors), (32, 128 * factors), (32, 256 * factors),
             (32, 512 * factors)}"
    unfolding g2 by auto
  moreover have "\<forall>(g, c) \<in> set (UNetV2_group_norms m2). c mod g = 0"
    unfolding g2 by simp
  ultimately show "\<exists>m. UNetV2_init num_classes in_channels False factors multi_scale' = Inr m \<and>
          set (UNetV2_group_norms m) =
            {(32, 32 * factors), (32, 64 * factors), (32, 128 * factors), (32, 256 * factors),
             (32, 512 * factors)} \<and>
          (\<forall>(g, c) \<in> set (UNetV2_group_norms m). c mod g = 0)"
    using m2 by blast
qed

theorem group_norm_channels_witness:
  "(0 \<le> (1::int) \<and> 0 \<le> (3::int) \<and> 0 < (3::int)) \<and>
   (\<exists>m. UNet_init 1 3 False = Inr m \<and>
          set (UNet_group_norms m) = {(32, 64), (32, 128), (32, 256), (32, 512), (32, 1024)} \<and>
          (\<forall>(g, c) \<in> set (UNet_group_norms m). c mod g = 0)) \<and>
   (\<exists>m. UNetV2_init 1 3 False 3 True = Inr m \<and>
          set (UNetV2_group_norms m) = {(32, 96), (32, 192), (32, 384), (32, 768), (32, 1536)} \<and>
          (\<forall>(g, c) \<in> set (UNetV2_group_norms m). c mod g = 0))"
  using group_norm_channels_divisible [of 1 3 3 True] by simp

section \<open>What a forward pass writes\<close>

lemma layer_forward_parameters [simp]:
  "layer_parameters (snd (layer_forward l x)) = layer_parameters l"
  by (cases l) (simp_all split: if_splits)

lemma snd_Sequential_Cons:
  "snd (Sequential_forward (l # ls) x) =
     (case fst (layer_forward l x) of
        Inl e \<Rightarrow> snd (layer_forward l x) # ls
      | Inr y \<Rightarrow> snd (layer_forward l x) # snd (Sequential_forward ls y))"
  by (simp split: prod.splits sum.splits)

lemma Sequential_forward_parameters [simp]:
  "map layer_parameters (snd (Sequential_forward ls x)) = map layer_parameters ls"
proof (induction ls arbitrary: x)
  case Nil
  show ?case by simp
next
  case (Cons l ls)
  show ?case
    unfolding snd_Sequential_Cons by (simp add: Cons.IH split: sum.splits)
qed

lemma bindS_frame:
  assumes "\<And>s. P (snd (m s)) = P s" and "\<And>a s. P (snd (f a s)) = P s"
  shows "P (snd (bindS m f s)) = P s"
  using assms by (simp add: snd_bindS split: sum.splits)

lemma EncoderBlock_forward_parameters [simp]:
  "map layer_parameters (EncoderBlock_layers (snd (EncoderBlock_forward b x))) =
     map layer_parameters (EncoderBlock_layers b)"
  unfolding EncoderBlock_forward_def
  by (cases "EncoderBlock.pool b")
    (simp_all add: run_simps EncoderBlock_layers_def split: sum.splits)

lemma EncoderBlockV2_forward_parameters [simp]:
  "map layer_parameters (EncoderBlockV2_layers (snd (EncoderBlockV2_forward b x))) =
     map layer_parameters (EncoderBlockV2_layers b)"
  unfolding EncoderBlockV2_forward_def
  by (cases "EncoderBlockV2.pool b")
    (simp_all add: run_simps EncoderBlockV2_layers_def split: sum.splits)

lemma DecoderBlock_forward_parameters [simp]:
  "map layer_parameters (DecoderBlock.decode (snd (DecoderBlock_forward b x))) =
     map layer_parameters (DecoderBlock.decode b)"
  unfolding DecoderBlock_forward_def by (simp add: run_simps)

lemma DecoderBlockV2_forward_parameters [simp]:
  "map layer_parameters (DecoderBlockV2.decode (snd (DecoderBlockV2_forward b x))) =
     map layer_parameters (DecoderBlockV2.decode b)"
  unfolding DecoderBlockV2_forward_def by (simp add: run_simps)

lemma UNet_forward_frame: "UNet_parameters (snd (UNet_forward self x)) = UNet_parameters self"
  unfolding UNet_forward_def
  by (intro bindS_frame [where P = UNet_parameters])
    (simp_all add: snd_call snd_liftE UNet_parameters_def UNet_layers_def)

lemma UNetV2_forward_frame: "UNetV2_parameters (snd (UNetV2_forward self x)) = UNetV2_parameters self"
  unfolding UNetV2_forward_def
  by (cases "UNetV2.multi_scale self"; simp only: if_True if_False;
      intro bindS_frame [where P = UNetV2_parameters])
    (simp_all add: snd_call snd_liftE snd_returnS snd_call_opt UNetV2_parameters_def UNetV2_layers_def
      split: option.splits)

text \<open>
  A forward pass does change the module: in training mode every \<^verbatim>\<open>BatchNorm2d\<close> it runs
  counts the batch and writes its running statistics.
\<close>

lemma BatchNorm2d_forward_writes_buffers:
  "snd (layer_forward (BatchNorm2d 64 True w b rm rv 0) (randn 2 64 8 8)) =
     BatchNorm2d 64 True w b (inplace_write rm) (inplace_write rv) 1"
  by (simp add: randn_def)

text \<open>
  C10. A forward pass of either network leaves every learnable parameter (the weight and the
  bias of every convolution, transposed convolution and normalisation layer) as it was, for
  every network state and every input, whether the pass returns or raises.
\<close>

theorem forward_preserves_parameters:
  "UNet_parameters (snd (UNet_forward net x)) = UNet_parameters net \<and>
   UNetV2_parameters (snd (UNetV2_forward net2 x)) = UNetV2_parameters net2"
  using UNet_forward_frame UNetV2_forward_frame by simp

section \<open>The blocks of a constructed UNetV2\<close>

declare tensor_of.simps [simp del]

lemma div_div_2: "h div 2 div 2 = h div (4::int)" "h div 4 div 2 = h div (8::int)"
  "h div 8 div 2 = h div (16::int)"
  by (simp_all add: div_mult2_eq [symmetric])

lemma head_graph_simps [simp]: "head_graph None g = g" "head_graph (Some c) g = Apply c g"
  by (simp_all add: head_graph_def)

lemma conv1x1_iff:
  "fst (layer_forward (Conv2d ic oc 1 0 zeros w b) x) = Inr y \<longleftrightarrow>
     channels x = ic \<and> 1 \<le> height x \<and> 1 \<le> width x \<and>
     y = tensor_of (batch x, oc, height x, width x) (Apply (Conv2d ic oc 1 0 zeros w b) (grad_fn x))"
  unfolding Conv2d_iff by (auto simp: tensor_of.simps)

lemma AvgPool2d_iff:
  "fst (layer_forward (AvgPool2d 2 2) x) = Inr y \<longleftrightarrow>
     2 \<le> height x \<and> 2 \<le> width x \<and>
     y = tensor_of (batch x, channels x, height x div 2, width x div 2) (Apply (AvgPool2d 2 2) (grad_fn x))"
  unfolding pool_iff by (auto simp: pool_half tensor_of.simps)

lemma MaxPool2d_iff:
  "fst (layer_forward (MaxPool2d 2 2) x) = Inr y \<longleftrightarrow>
     2 \<le> height x \<and> 2 \<le> width x \<and>
     y = tensor_of (batch x, channels x, height x div 2, width x div 2) (Apply (MaxPool2d 2 2) (grad_fn x))"
  unfolding pool_iff by (auto simp: pool_half tensor_of.simps)

lemma interpolate_tensor_of:
  "interpolate x (h, w) a = Inr y \<longleftrightarrow>
     0 < height x \<and> 0 < width x \<and> 0 < h \<and> 0 < w \<and>
     y = tensor_of (batch x, channels x, h, w) (Interpolate (h, w) a (grad_fn x))"
  unfolding interpolate_iff by (auto simp: tensor_of.simps)

lemma cat_tensor_of:
  "cat a b = Inr y \<longleftrightarrow>
     batch a = batch b \<and> height a = height b \<and> width a = width b \<and>
     y = tensor_of (batch a, channels a + channels b, height a, width a) (Cat [grad_fn a, grad_fn b])"
  unfolding cat_iff by (auto simp: tensor_of.simps)

lemma size2_tensor_of [simp]: "size2 (tensor_of (n, c, h, w) g) = (h, w)"
  by (simp add: size2_def)


lemma UNetV2_blocks:
  assumes init: "UNetV2_init nc ic bn f ms = Inr m"
  shows "\<And>x y. fst (EncoderBlockV2_forward (UNetV2.enc1 m) x) = Inr y \<longleftrightarrow>
      channels x = ic \<and> 2 \<le> height x \<and> 2 \<le> width x \<and>
      norm_accepts bn (32 * f) (batch x) (height x) (width x) \<and>
      y = tensor_of (batch x, 32 * f, height x, width x) (EncoderBlockV2_graph (UNetV2.enc1 m) (grad_fn x))"
    and "\<And>x y. fst (EncoderBlockV2_forward (UNetV2.enc2 m) x) = Inr y \<longleftrightarrow>
      channels x = 32 * f \<and> 2 \<le> height x div 2 \<and> 2 \<le> width x div 2 \<and>
      norm_accepts bn (64 * f) (batch x) (height x div 2) (width x div 2) \<and>
      y = tensor_of (batch x, 64 * f, height x div 2, width x div 2)
            (EncoderBlockV2_graph (UNetV2.enc2 m) (grad_fn x))"
    and "\<And>x y. fst (EncoderBlockV2_forward (UNetV2.enc3 m) x) = Inr y \<longleftrightarrow>
      channels x = 64 * f \<and> 2 \<le> height x div 2 \<and> 2 \<le> width x div 2 \<and>
      norm_accepts bn (128 * f) (batch x) (height x div 2) (width x div 2) \<and>
      y = tensor_of (batch x, 128 * f, height x div 2, width x div 2)
            (EncoderBlockV2_graph (UNetV2.enc3 m) (grad_fn x))"
    and "\<And>x y. fst (EncoderBlockV2_forward (UNetV2.enc4 m) x) = Inr y \<longleftrightarrow>
      channels x = 128 * f \<and> 2 \<le> height x div 2 \<and> 2 \<le> width x div 2 \<and>
      norm_accepts bn (256 * f) (batch x) (height x div 2) (width x div 2) \<and>
      y = tensor_of (batch x, 256 * f, height x div 2, width x div 2)
            (EncoderBlockV2_graph (UNetV2.enc4 m) (grad_fn x))"
    and "\<And>x y. fst (DecoderBlockV2_forward (UNetV2.center m) x) = Inr y \<longleftrightarrow>
      channels x = 256 * f \<and> 2 \<le> height x \<and> 2 \<le> width x \<and>
      norm_accepts bn (512 * f) (batch x) (height x) (width x) \<and>
      norm_accepts bn (256 * f) (batch x) (height x) (width x) \<and>
      y = tensor_of (batch x, 256 * f, height x, width x)
            (Sequential_graph (DecoderBlockV2.decode (UNetV2.center m)) (grad_fn x))"
    and "\<And>x y. fst (DecoderBlockV2_forward (UNetV2.dec4 m) x) = Inr y \<longleftrightarrow>
      channels x = 512 * f \<and> 2 \<le> height x \<and> 2 \<le> width x \<and>
      norm_accepts bn (256 * f) (batch x) (height x) (width x) \<and>
      norm_accepts bn (128 * f) (batch x) (height x) (width x) \<and>
      y = tensor_of (batch x, 128 * f, height x, width x)
            (Sequential_graph (DecoderBlockV2.decode (UNetV2.dec4 m)) (grad_fn x))"
    and "\<And>x y. fst (DecoderBlockV2_forward (UNetV2.dec3 m) x) = Inr y \<longleftrightarrow>
      channels x = 256 * f \<and> 2 \<le> height x \<and> 2 \<le> width x \<and>
      norm_accepts bn (128 * f) (batch x) (height x) (width x) \<and>
      norm_accepts bn (64 * f) (batch x) (height x) (width x) \<and>
      y = tensor_of (batch x, 64 * f, height x, width x)
            (Sequential_graph (DecoderBlockV2.decode (UNetV2.dec3 m)) (grad_fn x))"
    and "\<And>x y. fst (DecoderBlockV2_forward (UNetV2.dec2 m) x) = Inr y \<longleftrightarrow>
      channels x = 128 * f \<and> 2 \<le> height x \<and> 2 \<le> width x \<and>
      norm_accepts bn (64 * f) (batch x) (height x) (width x) \<and>
      norm_accepts bn (32 * f) (batch x) (height x) (width x) \<and>
      y = tensor_of (batch x, 32 * f, height x, width x)
            (Sequential_graph (DecoderBlockV2.decode (UNetV2.dec2 m)) (grad_fn x))"
    and "\<And>x y. fst (Sequential_forward (UNetV2.dec1 m) x) = Inr y \<longleftrightarrow>
      channels x = 64 * f \<and> 2 \<le> height x \<and> 2 \<le> width x \<and>
      norm_accepts bn (32 * f) (batch x) (height x) (width x) \<and>
      y = tensor_of (batch x, 32 * f, height x, width x) (Sequential_graph (UNetV2.dec1 m) (grad_fn x))"
    and "\<And>x y. fst (layer_forward (UNetV2.final m) x) = Inr y \<longleftrightarrow>
      channels x = 32 * f \<and> 1 \<le> height x \<and> 1 \<le> width x \<and>
      y = tensor_of (batch x, nc, height x, width x) (Apply (UNetV2.final m) (grad_fn x))"
    and "\<And>x y. fst (layer_forward (UNetV2.polling m) x) = Inr y \<longleftrightarrow>
      2 \<le> height x \<and> 2 \<le> width x \<and>
      y = tensor_of (batch x, channels x, height x div 2, width x div 2)
            (Apply (UNetV2.polling m) (grad_fn x))"
proof -
  note fl = UNetV2_init_fields [OF init]
  from fl(1) obtain e1 where e1: "EncoderBlockV2_init ic (32 * f) False False bn = Inr e1"
    "UNetV2.enc1 m = initialize_encoderV2 e1" by blast
  from fl(2) obtain e2 where e2: "EncoderBlockV2_init (32 * f) (64 * f) False True bn = Inr e2"
    "UNetV2.enc2 m = initialize_encoderV2 e2" by blast
  from fl(3) obtain e3 where e3: "EncoderBlockV2_init (64 * f) (128 * f) False True bn = Inr e3"
    "UNetV2.enc3 m = initialize_encoderV2 e3" by blast
  from fl(4) obtain e4 where e4: "EncoderBlockV2_init (128 * f) (256 * f) False True bn = Inr e4"
    "UNetV2.enc4 m = initialize_encoderV2 e4" by blast
  from fl(6) obtain c where c: "DecoderBlockV2_init (256 * f) (512 * f) (256 * f) bn = Inr c"
    "UNetV2.center m = initialize_decoderV2 c" by blast
  from fl(7) obtain d4 where d4: "DecoderBlockV2_init (512 * f) (256 * f) (128 * f) bn = Inr d4"
    "UNetV2.dec4 m = initialize_decoderV2 d4" by blast
  from fl(8) obtain d3 where d3: "DecoderBlockV2_init (256 * f) (128 * f) (64 * f) bn = Inr d3"
    "UNetV2.dec3 m = initialize_decoderV2 d3" by blast
  from fl(9) obtain d2 where d2: "DecoderBlockV2_init (128 * f) (64 * f) (32 * f) bn = Inr d2"
    "UNetV2.dec2 m = initialize_decoderV2 d2" by blast
  from fl(10) obtain w1 b1 n1 w2 b2 n2 where d1: "UNetV2.dec1 m =
           [Conv2d (64 * f) (32 * f) 3 1 reflect w1 b1, initialize_layer n1, GELU,
            Conv2d (32 * f) (32 * f) 1 0 zeros w2 b2, initialize_layer n2, GELU]"
    and n1: "norm_init bn (32 * f) = Inr n1" and n2: "norm_init bn (32 * f) = Inr n2" by blast
  from fl(11) obtain wf bf where fin: "UNetV2.final m = Conv2d (32 * f) nc 1 0 zeros wf bf" by blast
  fix x y
  show "fst (EncoderBlockV2_forward (UNetV2.enc1 m) x) = Inr y \<longleftrightarrow>
      channels x = ic \<and> 2 \<le> height x \<and> 2 \<le> width x \<and>
      norm_accepts bn (32 * f) (batch x) (height x) (width x) \<and>
      y = tensor_of (batch x, 32 * f, height x, width x) (EncoderBlockV2_graph (UNetV2.enc1 m) (grad_fn x))"
    using EncoderBlockV2_iff [OF e1(1) e1(2) refl refl] by simp
  show "fst (EncoderBlockV2_forward (UNetV2.enc2 m) x) = Inr y \<longleftrightarrow>
      channels x = 32 * f \<and> 2 \<le> height x div 2 \<and> 2 \<le> width x div 2 \<and>
      norm_accepts bn (64 * f) (batch x) (height x div 2) (width x div 2) \<and>
      y = tensor_of (batch x, 64 * f, height x div 2, width x div 2)
            (EncoderBlockV2_graph (UNetV2.enc2 m) (grad_fn x))"
    using EncoderBlockV2_iff [OF e2(1) e2(2) refl refl] by simp
  show "fst (EncoderBlockV2_forward (UNetV2.enc3 m) x) = Inr y \<longleftrightarrow>
      channels x = 64 * f \<and> 2 \<le> height x div 2 \<and> 2 \<le> width x div 2 \<and>
      norm_accepts bn (128 * f) (batch x) (height x div 2) (width x div 2) \<and>
      y = tensor_of (batch x, 128 * f, height x div 2, width x div 2)
            (EncoderBlockV2_graph (UNetV2.enc3 m) (grad_fn x))"
    using EncoderBlockV2_iff [OF e3(1) e3(2) refl refl] by simp
  show "fst (EncoderBlockV2_forward (UNetV2.enc4 m) x) = Inr y \<longleftrightarrow>
      channels x = 128 * f \<and> 2 \<le> height x div 2 \<and> 2 \<le> width x div 2 \<and>
      norm_accepts bn (256 * f) (batch x) (height x div 2) (width x div 2) \<and>
      y = tensor_of (batch x, 256 * f, height x div 2, width x div 2)
            (EncoderBlockV2_graph (UNetV2.enc4 m) (grad_fn x))"
    using EncoderBlockV2_iff [OF e4(1) e4(2) refl refl] by simp
  show "fst (DecoderBlockV2_forward (UNetV2.center m) x) = Inr y \<longleftrightarrow>
      channels x = 256 * f \<and> 2 \<le> height x \<and> 2 \<le> width x \<and>
      norm_accepts bn (512 * f) (batch x) (height x) (width x) \<and>
      norm_accepts bn (256 * f) (batch x) (height x) (width x) \<and>
      y = tensor_of (batch x, 256 * f, height x, width x)
            (Sequential_graph (DecoderBlockV2.decode (UNetV2.center m)) (grad_fn x))"
    by (rule DecoderBlockV2_iff [OF c])
  show "fst (DecoderBlockV2_forward (UNetV2.dec4 m) x) = Inr y \<longleftrightarrow>
      channels x = 512 * f \<and> 2 \<le> height x \<and> 2 \<le> width x \<and>
      norm_accepts bn (256 * f) (batch x) (height x) (width x) \<and>
      norm_accepts bn (128 * f) (batch x) (height x) (width x) \<and>
      y = tensor_of (batch x, 128 * f, height x, width x)
            (Sequential_graph (DecoderBlockV2.decode (UNetV2.dec4 m)) (grad_fn x))"
    by (rule DecoderBlockV2_iff [OF d4])
  show "fst (DecoderBlockV2_forward (UNetV2.dec3 m) x) = Inr y \<longleftrightarrow>
      channels x = 256 * f \<and> 2 \<le> height x \<and> 2 \<le> width x \<and>
      norm_accepts bn (128 * f) (batch x) (height x) (width x) \<and>
      norm_accepts bn (64 * f) (batch x) (height x) (width x) \<and>
      y = tensor_of (batch x, 64 * f, height x, width x)
            (Sequential_graph (DecoderBlockV2.decode (UNetV2.dec3 m)) (grad_fn x))"
    by (rule DecoderBlockV2_iff [OF d3])
  show "fst (DecoderBlockV2_forward (UNetV2.dec2 m) x) = Inr y \<longleftrightarrow>
      channels x = 128 * f \<and> 2 \<le> height x \<and> 2 \<le> width x \<and>
      norm_accepts bn (64 * f) (batch x) (height x) (width x) \<and>
      norm_accepts bn (32 * f) (batch x) (height x) (width x) \<and>
      y = tensor_of (batch x, 32 * f, height x, width x)
            (Sequential_graph (DecoderBlockV2.decode (UNetV2.dec2 m)) (grad_fn x))"
    by (rule DecoderBlockV2_iff [OF d2])
  show "fst (Sequential_forward (UNetV2.dec1 m) x) = Inr y \<longleftrightarrow>
      channels x = 64 * f \<and> 2 \<le> height x \<and> 2 \<le> width x \<and>
      norm_accepts bn (32 * f) (batch x) (height x) (width x) \<and>
      y = tensor_of (batch x, 32 * f, height x, width x) (Sequential_graph (UNetV2.dec1 m) (grad_fn x))"
    unfolding d1
    by (auto simp: cna_iff [OF n1] cna_iff [OF n2] Sequential_Nil_iff Sequential_graph_def
        simp del: Sequential_forward.simps layer_forward.simps)
  show "fst (layer_forward (UNetV2.final m) x) = Inr y \<longleftrightarrow>
      channels x = 32 * f \<and> 1 \<le> height x \<and> 1 \<le> width x \<and>
      y = tensor_of (batch x, nc, height x, width x) (Apply (UNetV2.final m) (grad_fn x))"
    unfolding fin by (rule conv1x1_iff)
  show "fst (layer_forward (UNetV2.polling m) x) = Inr y \<longleftrightarrow>
      2 \<le> height x \<and> 2 \<le> width x \<and>
      y = tensor_of (batch x, channels x, height x div 2, width x div 2)
            (Apply (UNetV2.polling m) (grad_fn x))"
    unfolding fl(5) by (rule AvgPool2d_iff)
qed

section \<open>The forward pass of a constructed UNetV2\<close>

lemma bindE_InrE:
  assumes "bindE m f = Inr b"
  obtains a where "m = Inr a" and "f a = Inr b"
  using assms by (auto simp: bindE_eq_Inr)

lemma UNetV2_forward_run:
  assumes init: "UNetV2_init nc ic bn f ms = Inr m"
    and x: "channels x = ic" "32 \<le> height x" "32 \<le> width x"
    and na: "UNetV2_norms_accept bn f x"
  shows "fst (UNetV2_forward m x) = Inr (UNetV2_expected nc m x)"
proof -
  note B = UNetV2_blocks [OF init]
  note fl = UNetV2_init_fields [OF init]
  let ?n = "batch x" and ?H = "height x" and ?W = "width x"
  have hs: "2 \<le> ?H div 2" "2 \<le> ?H div 4" "2 \<le> ?H div 8" "2 \<le> ?H div 16" "2 \<le> ?H"
    and ws: "2 \<le> ?W div 2" "2 \<le> ?W div 4" "2 \<le> ?W div 8" "2 \<le> ?W div 16" "2 \<le> ?W"
    using x by simp_all
  note na' = na [unfolded UNetV2_norms_accept_def]
  define g1 where "g1 = EncoderBlockV2_graph (UNetV2.enc1 m) (grad_fn x)"
  define g2 where "g2 = EncoderBlockV2_graph (UNetV2.enc2 m) g1"
  define g3 where "g3 = EncoderBlockV2_graph (UNetV2.enc3 m) g2"
  define g4 where "g4 = EncoderBlockV2_graph (UNetV2.enc4 m) g3"
  define gc where "gc = Sequential_graph (DecoderBlockV2.decode (UNetV2.center m)) (Apply (UNetV2.polling m) g4)"
  define gd4 where "gd4 = Sequential_graph (DecoderBlockV2.decode (UNetV2.dec4 m))
    (Cat [Interpolate (?H div 8, ?W div 8) False gc, g4])"
  define gd3 where "gd3 = Sequential_graph (DecoderBlockV2.decode (UNetV2.dec3 m))
    (Cat [Interpolate (?H div 4, ?W div 4) False gd4, g3])"
  define gd2 where "gd2 = Sequential_graph (DecoderBlockV2.decode (UNetV2.dec2 m))
    (Cat [Interpolate (?H div 2, ?W div 2) False gd3, g2])"
  define gd1 where "gd1 = Sequential_graph (UNetV2.dec1 m)
    (Cat [Interpolate (?H, ?W) False gd2, g1])"
  note gdefs = g1_def g2_def g3_def g4_def gc_def gd4_def gd3_def gd2_def gd1_def
  have s1: "fst (EncoderBlockV2_forward (UNetV2.enc1 m) x) = Inr (tensor_of (?n, 32 * f, ?H, ?W) g1)"
    unfolding B(1) using x(1) hs(5) ws(5) na' by (simp add: g1_def)
  have s2: "fst (EncoderBlockV2_forward (UNetV2.enc2 m) (tensor_of (?n, 32 * f, ?H, ?W) g1)) =
      Inr (tensor_of (?n, 64 * f, ?H div 2, ?W div 2) g2)"
    unfolding B(2) using hs(1) ws(1) na' by (simp add: g2_def)
  have s3: "fst (EncoderBlockV2_forward (UNetV2.enc3 m) (tensor_of (?n, 64 * f, ?H div 2, ?W div 2) g2)) =
      Inr (tensor_of (?n, 128 * f, ?H div 4, ?W div 4) g3)"
    unfolding B(3) using hs(2) ws(2) na' by (simp add: g3_def div_div_2)
  have s4: "fst (EncoderBlockV2_forward (UNetV2.enc4 m) (tensor_of (?n, 128 * f, ?H div 4, ?W div 4) g3)) =
      Inr (tensor_of (?n, 256 * f, ?H div 8, ?W div 8) g4)"
    unfolding B(4) using hs(3) ws(3) na' by (simp add: g4_def div_div_2)
  have sp: "fst (layer_forward (UNetV2.polling m) (tensor_of (?n, 256 * f, ?H div 8, ?W div 8) g4)) =
      Inr (tensor_of (?n, 256 * f, ?H div 16, ?W div 16) (Apply (UNetV2.polling m) g4))"
    unfolding B(11) using hs(3) ws(3) by (simp add: div_div_2)
  have sc: "fst (DecoderBlockV2_forward (UNetV2.center m)
        (tensor_of (?n, 256 * f, ?H div 16, ?W div 16) (Apply (UNetV2.polling m) g4))) =
      Inr (tensor_of (?n, 256 * f, ?H div 16, ?W div 16) gc)"
    unfolding B(5) using hs(4) ws(4) na' by (simp add: gc_def)
  have i4: "interpolate (tensor_of (?n, 256 * f, ?H div 16, ?W div 16) gc) (?H div 8, ?W div 8) False =
      Inr (tensor_of (?n, 256 * f, ?H div 8, ?W div 8) (Interpolate (?H div 8, ?W div 8) False gc))"
    unfolding interpolate_tensor_of using hs(3) hs(4) ws(3) ws(4) by simp
  have c4: "cat (tensor_of (?n, 256 * f, ?H div 8, ?W div 8) (Interpolate (?H div 8, ?W div 8) False gc))
        (tensor_of (?n, 256 * f, ?H div 8, ?W div 8) g4) =
      Inr (tensor_of (?n, 512 * f, ?H div 8, ?W div 8) (Cat [Interpolate (?H div 8, ?W div 8) False gc, g4]))"
    unfolding cat_tensor_of by simp
  have sd4: "fst (DecoderBlockV2_forward (UNetV2.dec4 m)
        (tensor_of (?n, 512 * f, ?H div 8, ?W div 8) (Cat [Interpolate (?H div 8, ?W div 8) False gc, g4]))) =
      Inr (tensor_of (?n, 128 * f, ?H div 8, ?W div 8) gd4)"
    unfolding B(6) using hs(3) ws(3) na' by (simp add: gd4_def)
  have i3: "interpolate (tensor_of (?n, 128 * f, ?H div 8, ?W div 8) gd4) (?H div 4, ?W div 4) False =
      Inr (tensor_of (?n, 128 * f, ?H div 4, ?W div 4) (Interpolate (?H div 4, ?W div 4) False gd4))"
    unfolding interpolate_tensor_of using hs(2) hs(3) ws(2) ws(3) by simp
  have c3: "cat (tensor_of (?n, 128 * f, ?H div 4, ?W div 4) (Interpolate (?H div 4, ?W div 4) False gd4))
        (tensor_of (?n, 128 * f, ?H div 4, ?W div 4) g3) =
      Inr (tensor_of (?n, 256 * f, ?H div 4, ?W div 4) (Cat [Interpolate (?H div 4, ?W div 4) False gd4, g3]))"
    unfolding cat_tensor_of by simp
  have sd3: "fst (DecoderBlockV2_forward (UNetV2.dec3 m)
        (tensor_of (?n, 256 * f, ?H div 4, ?W div 4) (Cat [Interpolate (?H div 4, ?W div 4) False gd4, g3]))) =
      Inr (tensor_of (?n, 64 * f, ?H div 4, ?W div 4) gd3)"
    unfolding B(7) using hs(2) ws(2) na' by (simp add: gd3_def)
  have i2: "interpolate (tensor_of (?n, 64 * f, ?H div 4, ?W div 4) gd3) (?H div 2, ?W div 2) False =
      Inr (tensor_of (?n, 64 * f, ?H div 2, ?W div 2) (Interpolate (?H div 2, ?W div 2) False gd3))"
    unfolding interpolate_tensor_of using hs(1) hs(2) ws(1) ws(2) by simp
  have c2: "cat (tensor_of (?n, 64 * f, ?H div 2, ?W div 2) (Interpolate (?H div 2, ?W div 2) False gd3))
        (tensor_of (?n, 64 * f, ?H div 2, ?W div 2) g2) =
      Inr (tensor_of (?n, 128 * f, ?H div 2, ?W div 2) (Cat [Interpolate (?H div 2, ?W div 2) False gd3, g2]))"
    unfolding cat_tensor_of by simp
  have sd2: "fst (DecoderBlockV2_forward (UNetV2.dec2 m)
        (tensor_of (?n, 128 * f, ?H div 2, ?W div 2) (Cat [Interpolate (?H div 2, ?W div 2) False gd3, g2]))) =
      Inr (tensor_of (?n, 32 * f, ?H div 2, ?W div 2) gd2)"
    unfolding B(8) using hs(1) ws(1) na' by (simp add: gd2_def)
  have i1: "interpolate (tensor_of (?n, 32 * f, ?H div 2, ?W div 2) gd2) (?H, ?W) False =
      Inr (tensor_of (?n, 32 * f, ?H, ?W) (Interpolate (?H, ?W) False gd2))"
    unfolding interpolate_tensor_of using hs(5) hs(1) ws(5) ws(1) by simp
  have c1: "cat (tensor_of (?n, 32 * f, ?H, ?W) (Interpolate (?H, ?W) False gd2))
        (tensor_of (?n, 32 * f, ?H, ?W) g1) =
      Inr (tensor_of (?n, 64 * f, ?H, ?W) (Cat [Interpolate (?H, ?W) False gd2, g1]))"
    unfolding cat_tensor_of by simp
  have sd1: "fst (Sequential_forward (UNetV2.dec1 m)
        (tensor_of (?n, 64 * f, ?H, ?W) (Cat [Interpolate (?H, ?W) False gd2, g1]))) =
      Inr (tensor_of (?n, 32 * f, ?H, ?W) gd1)"
    unfolding B(9) using hs(5) ws(5) na' by (simp add: gd1_def)
  have sf: "fst (layer_forward (UNetV2.final m) (tensor_of (?n, 32 * f, ?H, ?W) gd1)) =
      Inr (tensor_of (?n, nc, ?H, ?W) (Apply (UNetV2.final m) gd1))"
    unfolding B(10) using hs(5) ws(5) by simp
  have ex: "UNetV2_decoder_graphs m x = (gd4, gd3, gd2, gd1)"
    by (simp add: UNetV2_decoder_graphs_def Let_def gdefs)
  note steps = s1 s2 s3 s4 sp sc i4 c4 sd4 i3 c3 sd3 i2 c2 sd2 i1 c1 sd1 sf
  show ?thesis
  proof (cases ms)
    case False
    then show ?thesis
      unfolding UNetV2_forward_fst
      by (simp add: steps fl(12) UNetV2_expected_def ex
          del: Sequential_forward.simps layer_forward.simps)
  next
    case True
    from fl(13) [OF True] obtain w8 b8 where h8: "UNetV2.conv_8 m = Some (Conv2d (128 * f) nc 1 0 zeros w8 b8)"
      by blast
    from fl(14) [OF True] obtain w4 b4 where h4: "UNetV2.conv_4 m = Some (Conv2d (64 * f) nc 1 0 zeros w4 b4)"
      by blast
    from fl(15) [OF True] obtain w2 b2 where h2: "UNetV2.conv_2 m = Some (Conv2d (32 * f) nc 1 0 zeros w2 b2)"
      by blast
    have o8: "fst (layer_forward (Conv2d (128 * f) nc 1 0 zeros w8 b8) (tensor_of (?n, 128 * f, ?H div 8, ?W div 8) gd4)) =
        Inr (tensor_of (?n, nc, ?H div 8, ?W div 8) (Apply (Conv2d (128 * f) nc 1 0 zeros w8 b8) gd4))"
      unfolding conv1x1_iff using hs(3) ws(3) by simp
    have o4: "fst (layer_forward (Conv2d (64 * f) nc 1 0 zeros w4 b4) (tensor_of (?n, 64 * f, ?H div 4, ?W div 4) gd3)) =
        Inr (tensor_of (?n, nc, ?H div 4, ?W div 4) (Apply (Conv2d (64 * f) nc 1 0 zeros w4 b4) gd3))"
      unfolding conv1x1_iff using hs(2) ws(2) by simp
    have o2: "fst (layer_forward (Conv2d (32 * f) nc 1 0 zeros w2 b2) (tensor_of (?n, 32 * f, ?H div 2, ?W div 2) gd2)) =
        Inr (tensor_of (?n, nc, ?H div 2, ?W div 2) (Apply (Conv2d (32 * f) nc 1 0 zeros w2 b2) gd2))"
      unfolding conv1x1_iff using hs(1) ws(1) by simp
    from True show ?thesis
      unfolding UNetV2_forward_fst
      by (simp add: steps fl(12) UNetV2_expected_def ex h8 h4 h2 o8 o4 o2
          del: Sequential_forward.simps layer_forward.simps)
  qed
qed

lemma UNetV2_forward_InrD:
  assumes init: "UNetV2_init nc ic bn f ms = Inr m"
    and ok: "fst (UNetV2_forward m x) = Inr r"
  shows "channels x = ic" "32 \<le> height x" "32 \<le> width x" "UNetV2_norms_accept bn f x"
proof -
  note B = UNetV2_blocks [OF init]
  let ?n = "batch x" and ?H = "height x" and ?W = "width x"
  from ok obtain e1 e2 e3 e4 p c u4 c4 d4 u3 c3 d3 u2 c2 d2 u1 c1 d1 where
    s1: "fst (EncoderBlockV2_forward (UNetV2.enc1 m) x) = Inr e1" and
    s2: "fst (EncoderBlockV2_forward (UNetV2.enc2 m) e1) = Inr e2" and
    s3: "fst (EncoderBlockV2_forward (UNetV2.enc3 m) e2) = Inr e3" and
    s4: "fst (EncoderBlockV2_forward (UNetV2.enc4 m) e3) = Inr e4" and
    sp: "fst (layer_forward (UNetV2.polling m) e4) = Inr p" and
    sc: "fst (DecoderBlockV2_forward (UNetV2.center m) p) = Inr c" and
    i4: "interpolate c (size2 e4) False = Inr u4" and
    k4: "cat u4 e4 = Inr c4" and
    sd4: "fst (DecoderBlockV2_forward (UNetV2.dec4 m) c4) = Inr d4" and
    i3: "interpolate d4 (size2 e3) False = Inr u3" and
    k3: "cat u3 e3 = Inr c3" and
    sd3: "fst (DecoderBlockV2_forward (UNetV2.dec3 m) c3) = Inr d3" and
    i2: "interpolate d3 (size2 e2) False = Inr u2" and
    k2: "cat u2 e2 = Inr c2" and
    sd2: "fst (DecoderBlockV2_forward (UNetV2.dec2 m) c2) = Inr d2" and
    i1: "interpolate d2 (size2 e1) False = Inr u1" and
    k1: "cat u1 e1 = Inr c1" and
    sd1: "fst (Sequential_forward (UNetV2.dec1 m) c1) = Inr d1"
    unfolding UNetV2_forward_fst by (elim bindE_InrE) (rule that)
  from s1 have x1: "channels x = ic" and n1: "norm_accepts bn (32 * f) ?n ?H ?W"
    and e1: "batch e1 = ?n" "channels e1 = 32 * f" "height e1 = ?H" "width e1 = ?W"
    unfolding B(1) by simp_all
  from s2 e1 have n2: "norm_accepts bn (64 * f) ?n (?H div 2) (?W div 2)"
    and e2: "batch e2 = ?n" "channels e2 = 64 * f" "height e2 = ?H div 2" "width e2 = ?W div 2"
    unfolding B(2) by simp_all
  from s3 e2 have n3: "norm_accepts bn (128 * f) ?n (?H div 4) (?W div 4)"
    and e3: "batch e3 = ?n" "channels e3 = 128 * f" "height e3 = ?H div 4" "width e3 = ?W div 4"
    unfolding B(3) by (simp_all add: div_div_2)
  from s4 e3 have n4: "norm_accepts bn (256 * f) ?n (?H div 8) (?W div 8)"
    and e4: "batch e4 = ?n" "channels e4 = 256 * f" "height e4 = ?H div 8" "width e4 = ?W div 8"
    unfolding B(4) by (simp_all add: div_div_2)
  from sp e4 have p: "batch p = ?n" "channels p = 256 * f" "height p = ?H div 16" "width p = ?W div 16"
    unfolding B(11) by (simp_all add: div_div_2)
  from sc p have hw: "2 \<le> ?H div 16" "2 \<le> ?W div 16"
    and n5: "norm_accepts bn (512 * f) ?n (?H div 16) (?W div 16)"
    and n6: "norm_accepts bn (256 * f) ?n (?H div 16) (?W div 16)"
    and c: "batch c = ?n" "channels c = 256 * f" "height c = ?H div 16" "width c = ?W div 16"
    unfolding B(5) by simp_all
  from i4 e4 c have u4: "batch u4 = ?n" "channels u4 = 256 * f" "height u4 = ?H div 8" "width u4 = ?W div 8"
    unfolding size2_def interpolate_tensor_of by simp_all
  from k4 u4 e4 have c4: "batch c4 = ?n" "channels c4 = 512 * f" "height c4 = ?H div 8" "width c4 = ?W div 8"
    unfolding cat_tensor_of by simp_all
  from sd4 c4 have n7: "norm_accepts bn (128 * f) ?n (?H div 8) (?W div 8)"
    and d4: "batch d4 = ?n" "channels d4 = 128 * f" "height d4 = ?H div 8" "width d4 = ?W div 8"
    unfolding B(6) by simp_all
  from i3 e3 d4 have u3: "batch u3 = ?n" "channels u3 = 128 * f" "height u3 = ?H div 4" "width u3 = ?W div 4"
    unfolding size2_def interpolate_tensor_of by simp_all
  from k3 u3 e3 have c3: "batch c3 = ?n" "channels c3 = 256 * f" "height c3 = ?H div 4" "width c3 = ?W div 4"
    unfolding cat_tensor_of by simp_all
  from sd3 c3 have n8: "norm_accepts bn (64 * f) ?n (?H div 4) (?W div 4)"
    and d3: "batch d3 = ?n" "channels d3 = 64 * f" "height d3 = ?H div 4" "width d3 = ?W div 4"
    unfolding B(7) by simp_all
  from i2 e2 d3 have u2: "batch u2 = ?n" "channels u2 = 64 * f" "height u2 = ?H div 2" "width u2 = ?W div 2"
    unfolding size2_def interpolate_tensor_of by simp_all
  from k2 u2 e2 have c2: "batch c2 = ?n" "channels c2 = 128 * f" "height c2 = ?H div 2" "width c2 = ?W div 2"
    unfolding cat_tensor_of by simp_all
  from sd2 c2 have n9: "norm_accepts bn (32 * f) ?n (?H div 2) (?W div 2)"
    unfolding B(8) by simp_all
  show "channels x = ic" by (rule x1)
  from hw show "32 \<le> height x" "32 \<le> width x" by simp_all
  from n1 n2 n3 n4 n5 n6 n7 n8 n9 show "UNetV2_norms_accept bn f x"
    unfolding UNetV2_norms_accept_def by simp
qed

lemma UNetV2_forward_iff:
  assumes init: "UNetV2_init nc ic bn f ms = Inr m"
  shows "fst (UNetV2_forward m x) = Inr r \<longleftrightarrow>
     channels x = ic \<and> 32 \<le> height x \<and> 32 \<le> width x \<and> UNetV2_norms_accept bn f x \<and>
     r = UNetV2_expected nc m x"
proof
  assume ok: "fst (UNetV2_forward m x) = Inr r"
  note d = UNetV2_forward_InrD [OF init ok]
  from UNetV2_forward_run [OF init d] ok have "r = UNetV2_expected nc m x"
    by simp
  with d show "channels x = ic \<and> 32 \<le> height x \<and> 32 \<le> width x \<and> UNetV2_norms_accept bn f x \<and>
     r = UNetV2_expected nc m x"
    by simp
next
  assume "channels x = ic \<and> 32 \<le> height x \<and> 32 \<le> width x \<and> UNetV2_norms_accept bn f x \<and>
     r = UNetV2_expected nc m x"
  then show "fst (UNetV2_forward m x) = Inr r"
    using UNetV2_forward_run [OF init, of x] by simp
qed

section \<open>The script at the end of the file\<close>

text \<open>
  C5. \<^verbatim>\<open>UNetV2(in_channels=1, num_classes=1)\<close> (group normalisation, \<open>factors = 2\<close>, three
  extra heads) applied to a tensor of sizes (1, 1, 200, 200) returns four tensors, each with
  batch size 1 and 1 channel, of spatial sizes 25 x 25, 50 x 50, 100 x 100 and 200 x 200.
\<close>

theorem main_returns_four_scales:
  "map_sum id (map shape \<circ> tensors) main =
     Inr [(1, 1, 25, 25), (1, 1, 50, 50), (1, 1, 100, 100), (1, 1, 200, 200)]"
  by code_simp

end
